theory Spec2Isabelle
  imports Complex_Main "HOL-Library.Product_Lexorder"
begin

section \<open>Errors and the result type\<close>

text \<open>
  The Python exceptions the attention module can raise. A fallible function returns
  \<open>error + 'a\<close>, with \<open>Inl\<close> for the raised exception.
\<close>

datatype error = AssertionError | ZeroDivisionError | ValueError | RuntimeError | IndexError

definition ebind :: "error + 'a \<Rightarrow> ('a \<Rightarrow> error + 'b) \<Rightarrow> error + 'b" where
  "ebind m f = (case m of Inl e \<Rightarrow> Inl e | Inr x \<Rightarrow> f x)"

fun emap :: "('a \<Rightarrow> error + 'b) \<Rightarrow> 'a list \<Rightarrow> error + 'b list" where
  "emap f [] = Inr []"
| "emap f (x # xs) =
     (case f x of Inl e \<Rightarrow> Inl e
      | Inr y \<Rightarrow> (case emap f xs of Inl e \<Rightarrow> Inl e | Inr ys \<Rightarrow> Inr (y # ys)))"

section \<open>WindowScoreBias: the relative position tables\<close>

text \<open>
  A float32 value is finite, an infinity or NaN. The finite values the tables hold are
  quotients of small integers; they are kept as exact rationals (rounding to nearest is
  monotone and leaves \<open>-1\<close>, \<open>0\<close> and \<open>1\<close> fixed, so bounds by these carry over).
\<close>

datatype f32 = Fin rat | PosInf | NegInf | NaN

text \<open>IEEE division of two finite values: \<open>0 / 0\<close> is NaN, \<open>x / 0\<close> an infinity.\<close>

definition fdiv :: "rat \<Rightarrow> rat \<Rightarrow> f32" where
  "fdiv a b =
     (if b = 0 then (if a = 0 then NaN else if 0 < a then PosInf else NegInf)
      else Fin (a / b))"

text \<open>\<open>lo \<le> x \<le> hi\<close> on float32: false for NaN and for the infinities.\<close>

fun f32_between :: "rat \<Rightarrow> rat \<Rightarrow> f32 \<Rightarrow> bool" where
  "f32_between lo hi (Fin r) = (lo \<le> r \<and> r \<le> hi)"
| "f32_between lo hi PosInf = False"
| "f32_between lo hi NegInf = False"
| "f32_between lo hi NaN = False"

type_synonym pos = "int \<times> int"

text \<open>\<open>torch.arange(0, n)\<close>: the integers \<open>0 .. n-1\<close>; a negative bound raises.\<close>

definition arange :: "int \<Rightarrow> error + int list" where
  "arange n = (if n < 0 then Inl RuntimeError else Inr [0..n - 1])"

text \<open>
  \<open>torch.meshgrid(ys, xs, indexing="ij")\<close>, stacked on a last axis and reshaped to
  \<open>(N, 2)\<close>: the pairs \<open>(y, x)\<close> in row-major order.
\<close>

definition positions_of :: "int list \<Rightarrow> int list \<Rightarrow> pos list" where
  "positions_of ys xs = concat (map (\<lambda>y. map (\<lambda>x. (y, x)) xs) ys)"

definition pos_sub :: "pos \<Rightarrow> pos \<Rightarrow> pos" where
  "pos_sub p q = (fst p - fst q, snd p - snd q)"

text \<open>
  The list comprehension \<open>[positions[i].view(1, 2) - positions for i in range(N)]\<close>,
  row after row.
\<close>

definition all_deltas :: "pos list \<Rightarrow> pos list" where
  "all_deltas ps = concat (map (\<lambda>p. map (\<lambda>q. pos_sub p q) ps) ps)"

text \<open>\<open>torch.cat(..., dim=0)\<close> of these rows: it raises on an empty list of tensors.\<close>

definition delta_rows :: "pos list \<Rightarrow> error + pos list" where
  "delta_rows ps = (if ps = [] then Inl RuntimeError else Inr (all_deltas ps))"

text \<open>\<open>list.index\<close>: the first position of the element; ValueError when it is absent.\<close>

fun list_index :: "'a list \<Rightarrow> 'a \<Rightarrow> error + nat" where
  "list_index [] d = Inl ValueError"
| "list_index (x # xs) d =
     (if x = d then Inr 0
      else (case list_index xs d of Inl e \<Rightarrow> Inl e | Inr i \<Rightarrow> Inr (Suc i)))"

text \<open>\<open>unique_delta.abs().max()\<close> over all components; it raises on an empty tensor.\<close>

definition abs_max :: "pos list \<Rightarrow> error + int" where
  "abs_max us =
     (if us = [] then Inl RuntimeError
      else Inr (Max (set (concat (map (\<lambda>p. [\<bar>fst p\<bar>, \<bar>snd p\<bar>]) us)))))"

definition normalize :: "int \<Rightarrow> pos list \<Rightarrow> f32 list list" where
  "normalize m us = map (\<lambda>p. [fdiv (of_int (fst p)) (of_int m), fdiv (of_int (snd p)) (of_int m)]) us"

text \<open>
  \<open>WindowScoreBias._gen_input\<close>. The order in which Python iterates over
  \<open>set(delta)\<close> is not fixed by the language, so \<open>list(set(delta))\<close> is a parameter
  \<open>enum\<close>: any function listing each element of its argument once.
\<close>

definition set_enum :: "(pos list \<Rightarrow> pos list) \<Rightarrow> bool" where
  "set_enum enum = (\<forall>xs. distinct (enum xs) \<and> set (enum xs) = set xs)"

definition gen_input :: "(pos list \<Rightarrow> pos list) \<Rightarrow> int \<times> int \<Rightarrow> error + (nat list \<times> f32 list list)" where
  "gen_input enum window_size =
     ebind (arange (fst window_size)) (\<lambda>ys.
     ebind (arange (snd window_size)) (\<lambda>xs.
     ebind (delta_rows (positions_of ys xs)) (\<lambda>delta.
       let unique_delta = sort (enum delta) in
       ebind (emap (list_index unique_delta) delta) (\<lambda>index.
       ebind (abs_max unique_delta) (\<lambda>m.
         Inr (index, normalize m unique_delta))))))"

text \<open>
  \<open>WindowScoreBias.__init__\<close>: an \<open>int\<close> window size stands for a square window. The
  module keeps the window size and the two buffers; the weights of the bias network
  are floating-point parameters set by the module initializer and are not part of the
  tables.
\<close>

datatype window_arg = WInt int | WPair int int

record WindowScoreBias =
  wsb_window_size :: "int \<times> int"
  wsb_index :: "nat list"
  wsb_delta :: "f32 list list"

definition WindowScoreBias_init :: "(pos list \<Rightarrow> pos list) \<Rightarrow> window_arg \<Rightarrow> error + WindowScoreBias" where
  "WindowScoreBias_init enum window_size =
     (let ws = (case window_size of WInt n \<Rightarrow> (n, n) | WPair a b \<Rightarrow> (a, b)) in
      ebind (gen_input enum ws) (\<lambda>(index, unique_delta).
        Inr \<lparr>wsb_window_size = ws, wsb_index = index, wsb_delta = unique_delta\<rparr>))"

section \<open>Tensors by their shapes\<close>

text \<open>
  The attention operators are followed at the level of tensor shapes: a tensor is the
  list of its dimension sizes, and every check the code or the tensor library makes
  on shapes is a branch of the model. Element values, strides and dtypes are not part
  of it.
\<close>

type_synonym shape = "int list"

definition numel :: "shape \<Rightarrow> int" where
  "numel s = prod_list s"

text \<open>
  \<open>Tensor.view\<close> and \<open>Tensor.reshape\<close> to the given sizes: one size may be \<open>-1\<close> and
  is then inferred, any other negative size is refused, and the number of elements
  must stay the same.
\<close>

definition reshape :: "shape \<Rightarrow> int list \<Rightarrow> error + shape" where
  "reshape s sizes =
     (if list_ex (\<lambda>d. d < - 1) sizes then Inl RuntimeError
      else if 1 < length (filter (\<lambda>d. d = - 1) sizes) then Inl RuntimeError
      else if list_ex (\<lambda>d. d = - 1) sizes then
        (let known = prod_list (filter (\<lambda>d. d \<noteq> - 1) sizes) in
         if known = 0 then Inl RuntimeError
         else if numel s mod known \<noteq> 0 then Inl RuntimeError
         else Inr (map (\<lambda>d. if d = - 1 then numel s div known else d) sizes))
      else if prod_list sizes \<noteq> numel s then Inl RuntimeError
      else Inr sizes)"

text \<open>\<open>Tensor.permute\<close>: the dimensions in the given order, which must name each once.\<close>

definition permute :: "shape \<Rightarrow> nat list \<Rightarrow> error + shape" where
  "permute s dims =
     (if length dims = length s \<and> distinct dims \<and> list_all (\<lambda>i. i < length s) dims
      then Inr (map (\<lambda>i. s ! i) dims) else Inl RuntimeError)"

text \<open>
  Broadcasting: the shapes are aligned at their last dimension, and two sizes go
  together when they are equal or one of them is 1.
\<close>

definition broadcastable_to :: "shape \<Rightarrow> shape \<Rightarrow> bool" where
  "broadcastable_to m t =
     (length m \<le> length t \<and>
      list_all2 (\<lambda>a b. a = b \<or> a = 1) (rev m) (take (length m) (rev t)))"

fun broadcast_rev :: "shape \<Rightarrow> shape \<Rightarrow> error + shape" where
  "broadcast_rev [] bs = Inr bs"
| "broadcast_rev as [] = Inr as"
| "broadcast_rev (a # as) (b # bs) =
     (if a = b \<or> b = 1 then
        (case broadcast_rev as bs of Inl e \<Rightarrow> Inl e | Inr r \<Rightarrow> Inr (a # r))
      else if a = 1 then
        (case broadcast_rev as bs of Inl e \<Rightarrow> Inl e | Inr r \<Rightarrow> Inr (b # r))
      else Inl RuntimeError)"

text \<open>The shape of \<open>a + b\<close>.\<close>

definition tensor_add :: "shape \<Rightarrow> shape \<Rightarrow> error + shape" where
  "tensor_add a b =
     (case broadcast_rev (rev a) (rev b) of Inl e \<Rightarrow> Inl e | Inr r \<Rightarrow> Inr (rev r))"

text \<open>
  \<open>Tensor.split(split_size, dim=-1)\<close>: chunks of \<open>split_size\<close> along the last
  dimension, the last chunk taking the rest; a split size of 0 is accepted only for a
  last dimension of size 0 and gives one chunk.
\<close>

definition split_last :: "shape \<Rightarrow> int \<Rightarrow> error + shape list" where
  "split_last s split_size =
     (if s = [] \<or> split_size < 0 then Inl RuntimeError
      else if split_size = 0 then (if last s = 0 then Inr [s] else Inl RuntimeError)
      else
        (let n = max ((last s + split_size - 1) div split_size) 1 in
         Inr (map (\<lambda>i. butlast s @ [if i < n - 1 then split_size else last s - split_size * (n - 1)])
                  [0..n - 1])))"

text \<open>
  \<open>F.pad(x, [left, right, top, bottom])\<close> with constant padding: the last dimension
  grows by \<open>left + right\<close>, the one before by \<open>top + bottom\<close>; negative amounts crop,
  and a dimension may not become negative.
\<close>

definition pad2d :: "shape \<Rightarrow> int \<Rightarrow> int \<Rightarrow> int \<Rightarrow> int \<Rightarrow> error + shape" where
  "pad2d s pl pr pt pb =
     (if length s < 2 then Inl RuntimeError
      else
        (let w = last s + pl + pr; h = last (butlast s) + pt + pb in
         if w < 0 \<or> h < 0 then Inl RuntimeError
         else Inr (butlast (butlast s) @ [h, w])))"

text \<open>
  \<open>nn.Linear\<close>: construction allocates a weight of shape \<open>(out_features, in_features)\<close>,
  which fails for a negative size; the forward pass needs the last dimension of its
  input to be \<open>in_features\<close> and replaces it by \<open>out_features\<close>.
\<close>

record Linear =
  in_features :: int
  out_features :: int

definition Linear_init :: "int \<Rightarrow> int \<Rightarrow> error + Linear" where
  "Linear_init i o' =
     (if i < 0 \<or> o' < 0 then Inl RuntimeError
      else Inr \<lparr>in_features = i, out_features = o'\<rparr>)"

definition Linear_forward :: "Linear \<Rightarrow> shape \<Rightarrow> error + shape" where
  "Linear_forward l x =
     (if x = [] \<or> last x \<noteq> in_features l then Inl RuntimeError
      else Inr (butlast x @ [out_features l]))"

text \<open>
  \<open>nn.Conv2d(in_channels, out_channels, kernel_size=1, stride=1, padding=0)\<close>: a
  batched \<open>(B, C, H, W)\<close> or unbatched \<open>(C, H, W)\<close> input whose channel count is
  \<open>in_channels\<close>; the kernel needs at least one output channel and a spatial extent
  of at least 1.
\<close>

record Conv2d =
  conv_in_channels :: int
  conv_out_channels :: int

definition Conv2d_init :: "int \<Rightarrow> int \<Rightarrow> error + Conv2d" where
  "Conv2d_init i o' =
     (if i < 0 \<or> o' < 0 then Inl RuntimeError
      else Inr \<lparr>conv_in_channels = i, conv_out_channels = o'\<rparr>)"

definition Conv2d_forward :: "Conv2d \<Rightarrow> shape \<Rightarrow> error + shape" where
  "Conv2d_forward c x =
     (case x of
        [B, C, H, W] \<Rightarrow>
          (if C \<noteq> conv_in_channels c \<or> conv_out_channels c < 1 \<or> H < 1 \<or> W < 1 then Inl RuntimeError
           else Inr [B, conv_out_channels c, H, W])
      | [C, H, W] \<Rightarrow>
          (if C \<noteq> conv_in_channels c \<or> conv_out_channels c < 1 \<or> H < 1 \<or> W < 1 then Inl RuntimeError
           else Inr [conv_out_channels c, H, W])
      | _ \<Rightarrow> Inl RuntimeError)"

text \<open>
  \<open>F.scaled_dot_product_attention(q, k, v, attn_mask, dropout_p, is_causal)\<close> on
  \<open>q : (B, H, L, E)\<close>, \<open>k : (B, H, S, E)\<close>, \<open>v : (B, H, S, Ev)\<close>: the result is
  \<open>(B, H, L, Ev)\<close>. A mask excludes \<open>is_causal\<close> and must broadcast to the scores
  \<open>(B, H, L, S)\<close>. While a fused kernel is enabled, the choice of the kernel reads
  the last two dimensions of the mask and raises for a mask of fewer than two
  dimensions; \<open>fused\<close> says whether one is enabled around the call. The dropout
  probability only changes values.
\<close>

definition scaled_dot_product_attention ::
    "bool \<Rightarrow> shape \<Rightarrow> shape \<Rightarrow> shape \<Rightarrow> shape option \<Rightarrow> bool \<Rightarrow> error + shape" where
  "scaled_dot_product_attention fused q k v attn_mask is_causal =
     (case (q, k, v) of
        ([B, H, L, E], [B', H', S, E'], [B'', H'', S', Ev]) \<Rightarrow>
          (if B' \<noteq> B \<or> B'' \<noteq> B \<or> H' \<noteq> H \<or> H'' \<noteq> H \<or> E' \<noteq> E \<or> S' \<noteq> S
           then Inl RuntimeError
           else (case attn_mask of
                   None \<Rightarrow> Inr [B, H, L, Ev]
                 | Some m \<Rightarrow>
                     (if is_causal then Inl RuntimeError
                      else if fused \<and> length m < 2 then Inl IndexError
                      else if \<not> broadcastable_to m [B, H, L, S] then Inl RuntimeError
                      else Inr [B, H, L, Ev])))
      | _ \<Rightarrow> Inl RuntimeError)"

section \<open>The scaled-dot-product core\<close>

text \<open>
  \<open>use_flash_attention(flag)\<close> enables a set of attention kernels for the enclosed
  call. With \<open>torch.nn.attention\<close> present it is the list handed to \<open>sdpa_kernel\<close>;
  otherwise the three switches of \<open>torch.backends.cuda.sdp_kernel\<close>, read here as the
  kernels they leave enabled.
\<close>

datatype SDPBackend = FLASH_ATTENTION | EFFICIENT_ATTENTION | MATH

definition use_flash_attention :: "bool \<Rightarrow> bool \<Rightarrow> SDPBackend list" where
  "use_flash_attention has_sdpa_kernel flag =
     (if has_sdpa_kernel then
        (if flag then [FLASH_ATTENTION, EFFICIENT_ATTENTION, MATH] else [MATH])
      else
        (if flag then [FLASH_ATTENTION] else []) @ [MATH] @
        (if flag then [EFFICIENT_ATTENTION] else []))"

text \<open>The kernels \<open>sliced_sdp\<close> enables for a batch of size \<open>B\<close>: \<open>use_flash = B <= 65535\<close>.\<close>

definition sliced_sdp_backends :: "bool \<Rightarrow> int \<Rightarrow> SDPBackend list" where
  "sliced_sdp_backends has_sdpa_kernel B = use_flash_attention has_sdpa_kernel (B \<le> 65535)"

text \<open>
  \<open>sliced_sdp\<close>: unpacking \<open>q.shape\<close> needs three dimensions, \<open>C % num_heads\<close>
  raises for \<open>num_heads = 0\<close>, and the assertion follows. The attention call runs
  inside \<open>use_flash_attention(use_flash)\<close>, which in both of its variants enables the
  fused kernels exactly when \<open>use_flash\<close> holds.
\<close>

definition sliced_sdp :: "shape \<Rightarrow> shape \<Rightarrow> shape \<Rightarrow> int \<Rightarrow> shape option \<Rightarrow> bool \<Rightarrow> error + shape" where
  "sliced_sdp q k v num_heads attn_mask is_causal =
     (case q of
        [B, N, C] \<Rightarrow>
          (if num_heads = 0 then Inl ZeroDivisionError
           else if C mod num_heads \<noteq> 0 then Inl AssertionError
           else
             (let qkv_dim = C div num_heads in
              ebind (ebind (reshape q [B, N, num_heads, qkv_dim]) (\<lambda>t. permute t [0, 2, 1, 3])) (\<lambda>q'.
              ebind (ebind (reshape k [B, N, num_heads, qkv_dim]) (\<lambda>t. permute t [0, 2, 1, 3])) (\<lambda>k'.
              ebind (ebind (reshape v [B, N, num_heads, qkv_dim]) (\<lambda>t. permute t [0, 2, 1, 3])) (\<lambda>v'.
                (let use_flash = (B \<le> 65535) in
                 ebind (scaled_dot_product_attention use_flash q' k' v' attn_mask is_causal) (\<lambda>x.
                 ebind (permute x [0, 2, 1, 3]) (\<lambda>x'.
                   reshape x' [B, N, qkv_dim * num_heads]))))))))
      | _ \<Rightarrow> Inl ValueError)"

section \<open>Self-attention and cross-attention\<close>

text \<open>
  \<open>MHA.__init__\<close>. \<open>has_sdpa\<close> is what \<open>hasattr(F, "scaled_dot_product_attention")\<close>
  gives in the running torch. \<open>basic_module_init\<close> only assigns initial weights.
\<close>

record MHA =
  mha_qkv_dim :: int
  mha_num_heads :: int
  mha_qkv_proj :: Linear
  mha_head_proj :: Linear

definition MHA_init :: "bool \<Rightarrow> int \<Rightarrow> int \<Rightarrow> int option \<Rightarrow> error + MHA" where
  "MHA_init has_sdpa embed_dim num_heads qkv_dim =
     (if \<not> has_sdpa then Inl AssertionError
      else
        ebind (case qkv_dim of
                 None \<Rightarrow>
                   (if num_heads = 0 then Inl ZeroDivisionError
                    else if embed_dim mod num_heads \<noteq> 0 then Inl AssertionError
                    else Inr (embed_dim div num_heads))
               | Some d \<Rightarrow> Inr d) (\<lambda>qkv_dim.
        ebind (Linear_init embed_dim (qkv_dim * num_heads * 3)) (\<lambda>qkv_proj.
        ebind (Linear_init (qkv_dim * num_heads) embed_dim) (\<lambda>head_proj.
          Inr \<lparr>mha_qkv_dim = qkv_dim, mha_num_heads = num_heads,
               mha_qkv_proj = qkv_proj, mha_head_proj = head_proj\<rparr>))))"

text \<open>\<open>MHA.forward\<close>: \<open>q, k, v = ...\<close> needs exactly three chunks.\<close>

definition MHA_forward :: "MHA \<Rightarrow> shape \<Rightarrow> shape option \<Rightarrow> bool \<Rightarrow> error + shape" where
  "MHA_forward m x attn_mask is_causal =
     ebind (Linear_forward (mha_qkv_proj m) x) (\<lambda>y.
     ebind (split_last y (mha_qkv_dim m * mha_num_heads m)) (\<lambda>chunks.
       (case chunks of
          [q, k, v] \<Rightarrow>
            ebind (sliced_sdp q k v (mha_num_heads m) attn_mask is_causal) (\<lambda>x'.
              Linear_forward (mha_head_proj m) x')
        | _ \<Rightarrow> Inl ValueError)))"

record CrossMHA =
  cmha_qkv_dim :: int
  cmha_num_heads :: int
  cmha_q_proj :: Linear
  cmha_kv_proj :: Linear
  cmha_head_proj :: Linear

definition CrossMHA_init :: "bool \<Rightarrow> int \<Rightarrow> int \<Rightarrow> int option \<Rightarrow> error + CrossMHA" where
  "CrossMHA_init has_sdpa embed_dim num_heads qkv_dim =
     (if \<not> has_sdpa then Inl AssertionError
      else
        ebind (case qkv_dim of
                 None \<Rightarrow>
                   (if num_heads = 0 then Inl ZeroDivisionError
                    else if embed_dim mod num_heads \<noteq> 0 then Inl AssertionError
                    else Inr (embed_dim div num_heads))
               | Some d \<Rightarrow> Inr d) (\<lambda>qkv_dim.
        ebind (Linear_init embed_dim (qkv_dim * num_heads)) (\<lambda>q_proj.
        ebind (Linear_init embed_dim (qkv_dim * num_heads * 2)) (\<lambda>kv_proj.
        ebind (Linear_init (qkv_dim * num_heads) embed_dim) (\<lambda>head_proj.
          Inr \<lparr>cmha_qkv_dim = qkv_dim, cmha_num_heads = num_heads, cmha_q_proj = q_proj,
               cmha_kv_proj = kv_proj, cmha_head_proj = head_proj\<rparr>)))))"

text \<open>\<open>CrossMHA.forward\<close>: the assertion on the two shapes comes first.\<close>

definition CrossMHA_forward :: "CrossMHA \<Rightarrow> shape \<Rightarrow> shape \<Rightarrow> shape option \<Rightarrow> bool \<Rightarrow> error + shape" where
  "CrossMHA_forward m q kv attn_mask is_causal =
     (if q \<noteq> kv then Inl AssertionError
      else
        ebind (Linear_forward (cmha_q_proj m) q) (\<lambda>q'.
        ebind (Linear_forward (cmha_kv_proj m) kv) (\<lambda>y.
        ebind (split_last y (cmha_qkv_dim m * cmha_num_heads m)) (\<lambda>chunks.
          (case chunks of
             [k, v] \<Rightarrow>
               ebind (sliced_sdp q' k v (cmha_num_heads m) attn_mask is_causal) (\<lambda>x.
                 Linear_forward (cmha_head_proj m) x)
           | _ \<Rightarrow> Inl ValueError)))))"

section \<open>The layout adapter\<close>

text \<open>
  Modelled from the spec: the layout adapter (\<open>bchw_to_bnc\<close>, \<open>bnc_to_bchw\<close>,
  \<open>bchw_to_bhwc\<close>, \<open>bhwc_to_bchw\<close> of the \<open>permute\<close> module), which the attention
  module imports. The partition turns a feature map \<open>(batch, channels, height, width)\<close>
  into \<open>(batch * windows, tokens per window, channels)\<close> and enforces that height and
  width are multiples of the window extents.
\<close>

definition bchw_to_bnc :: "shape \<Rightarrow> int \<times> int \<Rightarrow> error + shape" where
  "bchw_to_bnc x window_size =
     (case x of
        [B, C, H, W] \<Rightarrow>
          (if fst window_size < 1 \<or> snd window_size < 1 then Inl AssertionError
           else if H mod fst window_size \<noteq> 0 \<or> W mod snd window_size \<noteq> 0 then Inl AssertionError
           else Inr [B * (H div fst window_size) * (W div snd window_size),
                     fst window_size * snd window_size, C])
      | _ \<Rightarrow> Inl ValueError)"

text \<open>
  Modelled from the spec: the reassembly is the exact inverse of the partition. It
  gives a map of the original shape for the windowed sequence that the partition of
  such a map has, and fails on any other.
\<close>

definition bnc_to_bchw :: "shape \<Rightarrow> shape \<Rightarrow> int \<times> int \<Rightarrow> error + shape" where
  "bnc_to_bchw x out_shape window_size =
     (case bchw_to_bnc out_shape window_size of
        Inl e \<Rightarrow> Inl e
      | Inr s \<Rightarrow> (if x = s then Inr out_shape else Inl RuntimeError))"

text \<open>Modelled from the spec: the conversions between channel-first and channel-last.\<close>

definition bchw_to_bhwc :: "shape \<Rightarrow> error + shape" where
  "bchw_to_bhwc x = (case x of [B, C, H, W] \<Rightarrow> Inr [B, H, W, C] | _ \<Rightarrow> Inl ValueError)"

definition bhwc_to_bchw :: "shape \<Rightarrow> error + shape" where
  "bhwc_to_bchw x = (case x of [B, H, W, C] \<Rightarrow> Inr [B, C, H, W] | _ \<Rightarrow> Inl ValueError)"

section \<open>The windowed wrappers\<close>

text \<open>
  A normalization passed to a forward pass is any callable on the tensor; it is a
  function on shapes that may fail.
\<close>

type_synonym norm_fn = "shape \<Rightarrow> error + shape"

definition apply_norm :: "norm_fn option \<Rightarrow> shape \<Rightarrow> error + shape" where
  "apply_norm layer_norm x = (case layer_norm of None \<Rightarrow> Inr x | Some f \<Rightarrow> f x)"

definition window_pair :: "window_arg \<Rightarrow> int \<times> int" where
  "window_pair window_size = (case window_size of WInt n \<Rightarrow> (n, n) | WPair a b \<Rightarrow> (a, b))"

record WindowMHA2d =
  wm_window_size :: "int \<times> int"
  wm_num_heads :: int
  wm_mha :: MHA

definition WindowMHA2d_init :: "bool \<Rightarrow> int \<Rightarrow> int \<Rightarrow> window_arg \<Rightarrow> int option \<Rightarrow> error + WindowMHA2d" where
  "WindowMHA2d_init has_sdpa in_channels num_heads window_size qkv_dim =
     ebind (MHA_init has_sdpa in_channels num_heads qkv_dim) (\<lambda>mha.
       Inr \<lparr>wm_window_size = window_pair window_size, wm_num_heads = num_heads, wm_mha = mha\<rparr>)"

definition WindowMHA2d_forward :: "WindowMHA2d \<Rightarrow> shape \<Rightarrow> shape option \<Rightarrow> norm_fn option \<Rightarrow> error + shape" where
  "WindowMHA2d_forward m x attn_mask layer_norm =
     (let out_shape = x in
      ebind (bchw_to_bnc x (wm_window_size m)) (\<lambda>x1.
      ebind (apply_norm layer_norm x1) (\<lambda>x2.
      ebind (MHA_forward (wm_mha m) x2 attn_mask False) (\<lambda>x3.
        bnc_to_bchw x3 out_shape (wm_window_size m)))))"

record WindowCrossMHA2d =
  wc_window_size :: "int \<times> int"
  wc_num_heads :: int
  wc_mha :: CrossMHA

definition WindowCrossMHA2d_init :: "bool \<Rightarrow> int \<Rightarrow> int \<Rightarrow> window_arg \<Rightarrow> int option \<Rightarrow> error + WindowCrossMHA2d" where
  "WindowCrossMHA2d_init has_sdpa in_channels num_heads window_size qkv_dim =
     ebind (CrossMHA_init has_sdpa in_channels num_heads qkv_dim) (\<lambda>mha.
       Inr \<lparr>wc_window_size = window_pair window_size, wc_num_heads = num_heads, wc_mha = mha\<rparr>)"

definition WindowCrossMHA2d_forward ::
    "WindowCrossMHA2d \<Rightarrow> shape \<Rightarrow> shape \<Rightarrow> shape option \<Rightarrow> norm_fn option \<Rightarrow> norm_fn option \<Rightarrow> error + shape" where
  "WindowCrossMHA2d_forward m x1 x2 attn_mask layer_norm1 layer_norm2 =
     (let out_shape = x1 in
      ebind (bchw_to_bnc x1 (wc_window_size m)) (\<lambda>y1.
      ebind (bchw_to_bnc x2 (wc_window_size m)) (\<lambda>y2.
      ebind (apply_norm layer_norm1 y1) (\<lambda>z1.
      ebind (apply_norm layer_norm2 y2) (\<lambda>z2.
      ebind (CrossMHA_forward (wc_mha m) z1 z2 attn_mask False) (\<lambda>x.
        bnc_to_bchw x out_shape (wc_window_size m)))))))"

text \<open>
  \<open>OverlapWindowMHA2d\<close>: its constructor makes no check of the torch version; the
  two projections are 1x1 convolutions.
\<close>

record OverlapWindowMHA2d =
  ow_window_size :: "int \<times> int"
  ow_pad_h :: int
  ow_pad_w :: int
  ow_num_heads :: int
  ow_qkv_dim :: int
  ow_qkv_proj :: Conv2d
  ow_head_proj :: Conv2d

definition OverlapWindowMHA2d_init :: "int \<Rightarrow> int \<Rightarrow> window_arg \<Rightarrow> int option \<Rightarrow> error + OverlapWindowMHA2d" where
  "OverlapWindowMHA2d_init in_channels num_heads window_size qkv_dim =
     (let ws = window_pair window_size; pad_h = fst ws div 2; pad_w = snd ws div 2 in
      ebind (case qkv_dim of
               None \<Rightarrow>
                 (if num_heads = 0 then Inl ZeroDivisionError
                  else if in_channels mod num_heads \<noteq> 0 then Inl AssertionError
                  else Inr (in_channels div num_heads))
             | Some d \<Rightarrow> Inr d) (\<lambda>qkv_dim.
      ebind (Conv2d_init in_channels (qkv_dim * num_heads * 3)) (\<lambda>qkv_proj.
      ebind (Conv2d_init (qkv_dim * num_heads) in_channels) (\<lambda>head_proj.
        Inr \<lparr>ow_window_size = ws, ow_pad_h = pad_h, ow_pad_w = pad_w, ow_num_heads = num_heads,
             ow_qkv_dim = qkv_dim, ow_qkv_proj = qkv_proj, ow_head_proj = head_proj\<rparr>))))"

definition forward_mha :: "OverlapWindowMHA2d \<Rightarrow> shape \<Rightarrow> shape option \<Rightarrow> error + shape" where
  "forward_mha m x attn_mask =
     ebind (split_last x (ow_qkv_dim m * ow_num_heads m)) (\<lambda>chunks.
       (case chunks of
          [q, k, v] \<Rightarrow> sliced_sdp q k v (ow_num_heads m) attn_mask False
        | _ \<Rightarrow> Inl ValueError))"

text \<open>
  The shape \<open>(out_shape[0], x.shape[-1], *out_shape[2:])\<close> handed to the reassembly;
  indexing an empty shape raises.
\<close>

definition branch_out_shape :: "shape \<Rightarrow> shape \<Rightarrow> error + shape" where
  "branch_out_shape out_shape x =
     (if out_shape = [] \<or> x = [] then Inl RuntimeError
      else Inr ([hd out_shape, last x] @ drop 2 out_shape))"

definition OverlapWindowMHA2d_forward ::
    "OverlapWindowMHA2d \<Rightarrow> shape \<Rightarrow> shape option \<Rightarrow> norm_fn option \<Rightarrow> error + shape" where
  "OverlapWindowMHA2d_forward m x attn_mask layer_norm =
     ebind (case layer_norm of
              None \<Rightarrow> Inr x
            | Some f \<Rightarrow> ebind (bchw_to_bhwc x) (\<lambda>a. ebind (f a) (\<lambda>b. bhwc_to_bchw b))) (\<lambda>x.
     ebind (Conv2d_forward (ow_qkv_proj m) x) (\<lambda>x.
     ebind (pad2d x (ow_pad_w m) (ow_pad_w m) (ow_pad_h m) (ow_pad_h m)) (\<lambda>x2.
       (let x1 = x; out_shape1 = x1; out_shape2 = x2 in
        ebind (bchw_to_bnc x1 (ow_window_size m)) (\<lambda>x1.
        ebind (bchw_to_bnc x2 (ow_window_size m)) (\<lambda>x2.
        ebind (forward_mha m x1 attn_mask) (\<lambda>x1.
        ebind (forward_mha m x2 attn_mask) (\<lambda>x2.
        ebind (ebind (branch_out_shape out_shape1 x1) (\<lambda>s. bnc_to_bchw x1 s (ow_window_size m))) (\<lambda>x1.
        ebind (ebind (branch_out_shape out_shape2 x2) (\<lambda>s. bnc_to_bchw x2 s (ow_window_size m))) (\<lambda>x2.
        ebind (pad2d x2 (- ow_pad_w m) (- ow_pad_w m) (- ow_pad_h m) (- ow_pad_h m)) (\<lambda>x2.
        ebind (tensor_add x1 x2) (\<lambda>s.
          Conv2d_forward (ow_head_proj m) s))))))))))))"

section \<open>The overlapping-window forward pass on values\<close>

text \<open>
  To follow which input positions an output position draws on, a feature map is an
  array of channel vectors indexed by batch, row and column, and a windowed sequence
  an array of channel vectors indexed by window and token. What happens inside a
  channel vector is left to the kernels: the two 1x1 convolutions act on the channel
  vector of each position, the padding value is the zero vector, the attention kernel
  maps the tokens of one window to its output tokens (attention never looks across
  the batch dimension, which holds the windows here; the mask, broadcast along that
  dimension, may differ from window to window), and the sum is taken position by
  position.
\<close>

record 'a tensor4 =
  t_B :: nat
  t_H :: nat
  t_W :: nat
  t_at :: "nat \<Rightarrow> nat \<Rightarrow> nat \<Rightarrow> 'a"

record 'a tensor3 =
  s_B :: nat
  s_N :: nat
  s_at :: "nat \<Rightarrow> nat \<Rightarrow> 'a"

record ('a, 'b, 'c, 'd) kernels =
  k_qkv_proj :: "'a \<Rightarrow> 'b"
  k_zero :: 'b
  k_attention :: "nat \<Rightarrow> 'b list \<Rightarrow> nat \<Rightarrow> 'c"
  k_zero_out :: 'c
  k_add :: "'c \<Rightarrow> 'c \<Rightarrow> 'c"
  k_head_proj :: "'c \<Rightarrow> 'd"

definition pointwise :: "('a \<Rightarrow> 'b) \<Rightarrow> 'a tensor4 \<Rightarrow> 'b tensor4" where
  "pointwise f x =
     \<lparr>t_B = t_B x, t_H = t_H x, t_W = t_W x, t_at = (\<lambda>b y c. f (t_at x b y c))\<rparr>"

text \<open>
  \<open>F.pad(x, [pw, pw, ph, ph], value=z)\<close> on values: a position of the result shows
  the position \<open>(y - ph, c - pw)\<close> of the input, or \<open>z\<close> outside of it; negative
  amounts crop.
\<close>

definition pad_values :: "'a \<Rightarrow> int \<Rightarrow> int \<Rightarrow> 'a tensor4 \<Rightarrow> error + 'a tensor4" where
  "pad_values z pw ph x =
     (let h = int (t_H x) + 2 * ph; w = int (t_W x) + 2 * pw in
      if h < 0 \<or> w < 0 then Inl RuntimeError
      else Inr \<lparr>t_B = t_B x, t_H = nat h, t_W = nat w,
                t_at = (\<lambda>b y c.
                  if ph \<le> int y \<and> int y < ph + int (t_H x) \<and> pw \<le> int c \<and> int c < pw + int (t_W x)
                  then t_at x b (nat (int y - ph)) (nat (int c - pw)) else z)\<rparr>)"

text \<open>
  Modelled from the spec: the partition of the layout adapter on values. The windows
  of one map follow each other row by row, and the tokens of a window are its
  positions row by row.
\<close>

definition bchw_to_bnc_values :: "'a tensor4 \<Rightarrow> int \<times> int \<Rightarrow> error + 'a tensor3" where
  "bchw_to_bnc_values x window_size =
     (if fst window_size < 1 \<or> snd window_size < 1 then Inl AssertionError
      else
        (let wh = nat (fst window_size); ww = nat (snd window_size) in
         if t_H x mod wh \<noteq> 0 \<or> t_W x mod ww \<noteq> 0 then Inl AssertionError
         else
           (let nh = t_H x div wh; nw = t_W x div ww in
            Inr \<lparr>s_B = t_B x * nh * nw, s_N = wh * ww,
                 s_at = (\<lambda>k t. t_at x (k div (nh * nw))
                                      ((k div nw) mod nh * wh + t div ww)
                                      (k mod nw * ww + t mod ww))\<rparr>)))"

text \<open>
  Modelled from the spec: the reassembly, the inverse of the partition, for a map of
  \<open>B\<close> images of \<open>H\<close> rows and \<open>W\<close> columns.
\<close>

definition bnc_to_bchw_values :: "'a tensor3 \<Rightarrow> nat \<times> nat \<times> nat \<Rightarrow> int \<times> int \<Rightarrow> error + 'a tensor4" where
  "bnc_to_bchw_values s out_shape window_size =
     (case out_shape of (B, H, W) \<Rightarrow>
        if fst window_size < 1 \<or> snd window_size < 1 then Inl AssertionError
        else
          (let wh = nat (fst window_size); ww = nat (snd window_size) in
           if H mod wh \<noteq> 0 \<or> W mod ww \<noteq> 0 then Inl AssertionError
           else
             (let nh = H div wh; nw = W div ww in
              if s_B s \<noteq> B * nh * nw \<or> s_N s \<noteq> wh * ww then Inl RuntimeError
              else Inr \<lparr>t_B = B, t_H = H, t_W = W,
                        t_at = (\<lambda>b y c. s_at s ((b * nh + y div wh) * nw + c div ww)
                                             (y mod wh * ww + c mod ww))\<rparr>)))"

text \<open>\<open>forward_mha\<close> on values: the attention kernel on the tokens of each window.\<close>

definition forward_mha_values :: "(nat \<Rightarrow> 'b list \<Rightarrow> nat \<Rightarrow> 'c) \<Rightarrow> 'b tensor3 \<Rightarrow> 'c tensor3" where
  "forward_mha_values attention s =
     \<lparr>s_B = s_B s, s_N = s_N s,
      s_at = (\<lambda>k t. attention k (map (\<lambda>i. s_at s k i) [0..<s_N s]) t)\<rparr>"

text \<open>\<open>x1 + x2\<close> for two maps, which must agree in shape here.\<close>

definition add_values :: "('c \<Rightarrow> 'c \<Rightarrow> 'c) \<Rightarrow> 'c tensor4 \<Rightarrow> 'c tensor4 \<Rightarrow> error + 'c tensor4" where
  "add_values f x1 x2 =
     (if t_B x1 \<noteq> t_B x2 \<or> t_H x1 \<noteq> t_H x2 \<or> t_W x1 \<noteq> t_W x2 then Inl RuntimeError
      else Inr \<lparr>t_B = t_B x1, t_H = t_H x1, t_W = t_W x1,
                t_at = (\<lambda>b y c. f (t_at x1 b y c) (t_at x2 b y c))\<rparr>)"

text \<open>
  \<open>OverlapWindowMHA2d.forward\<close> on values. The normalization, when given, is any
  function on the channel-last map; the layout conversions around it only rename
  the axes.
\<close>

definition OverlapWindowMHA2d_forward_values ::
    "('a, 'b, 'c, 'd) kernels \<Rightarrow> OverlapWindowMHA2d \<Rightarrow> 'a tensor4 \<Rightarrow>
     ('a tensor4 \<Rightarrow> error + 'a tensor4) option \<Rightarrow> error + 'd tensor4" where
  "OverlapWindowMHA2d_forward_values K m x layer_norm =
     ebind (case layer_norm of None \<Rightarrow> Inr x | Some f \<Rightarrow> f x) (\<lambda>x.
       (let x = pointwise (k_qkv_proj K) x; x1 = x in
        ebind (pad_values (k_zero K) (ow_pad_w m) (ow_pad_h m) x) (\<lambda>x2.
          (let out_shape1 = (t_B x1, t_H x1, t_W x1); out_shape2 = (t_B x2, t_H x2, t_W x2) in
           ebind (bchw_to_bnc_values x1 (ow_window_size m)) (\<lambda>x1.
           ebind (bchw_to_bnc_values x2 (ow_window_size m)) (\<lambda>x2.
             (let x1 = forward_mha_values (k_attention K) x1;
                  x2 = forward_mha_values (k_attention K) x2 in
              ebind (bnc_to_bchw_values x1 out_shape1 (ow_window_size m)) (\<lambda>x1.
              ebind (bnc_to_bchw_values x2 out_shape2 (ow_window_size m)) (\<lambda>x2.
              ebind (pad_values (k_zero_out K) (- ow_pad_w m) (- ow_pad_h m) x2) (\<lambda>x2.
              ebind (add_values (k_add K) x1 x2) (\<lambda>s.
                Inr (pointwise (k_head_proj K) s))))))))))))"

text \<open>A normalization that is absent or acts on the channel vector of each position.\<close>

definition per_position :: "('a tensor4 \<Rightarrow> error + 'a tensor4) option \<Rightarrow> bool" where
  "per_position layer_norm =
     (case layer_norm of None \<Rightarrow> True | Some f \<Rightarrow> (\<exists>n. \<forall>x. f x = Inr (pointwise n x)))"

section \<open>Auxiliary notions for the statements\<close>

text \<open>
  A mask that is absent, or has at least two dimensions and broadcasts to the shape of
  the attention scores.
\<close>

definition mask_fits :: "shape option \<Rightarrow> shape \<Rightarrow> bool" where
  "mask_fits attn_mask t =
     (case attn_mask of None \<Rightarrow> True | Some ms \<Rightarrow> 2 \<le> length ms \<and> broadcastable_to ms t)"

text \<open>The width of one head that the constructors settle on.\<close>

definition head_dim :: "int \<Rightarrow> int \<Rightarrow> int option \<Rightarrow> int" where
  "head_dim embed_dim num_heads qkv_dim =
     (case qkv_dim of None \<Rightarrow> embed_dim div num_heads | Some d \<Rightarrow> d)"

text \<open>A normalization that is absent or returns a tensor of the shape it is given.\<close>

definition norm_keeps :: "norm_fn option \<Rightarrow> shape \<Rightarrow> bool" where
  "norm_keeps layer_norm s = (case layer_norm of None \<Rightarrow> True | Some f \<Rightarrow> f s = Inr s)"

section \<open>Properties of the relative position tables\<close>

lemma list_index_mem:
  "x \<in> set xs \<Longrightarrow> \<exists>i. list_index xs x = Inr i \<and> i < length xs \<and> xs ! i = x"
  by (induction xs) auto

lemma list_index_Inr:
  "list_index xs x = Inr i \<Longrightarrow> i < length xs \<and> xs ! i = x"
  by (induction xs arbitrary: i) (auto split: if_splits sum.splits)

lemma emap_Inr_length: "emap f xs = Inr ys \<Longrightarrow> length ys = length xs"
  by (induction xs arbitrary: ys) (auto split: sum.splits)

lemma emap_Inr_set: "emap f xs = Inr ys \<Longrightarrow> y \<in> set ys \<Longrightarrow> \<exists>x \<in> set xs. f x = Inr y"
  by (induction xs arbitrary: ys) (auto split: sum.splits)

lemma emap_total: "(\<And>x. x \<in> set xs \<Longrightarrow> \<exists>y. f x = Inr y) \<Longrightarrow> \<exists>ys. emap f xs = Inr ys"
  by (induction xs) (fastforce split: sum.splits)+

lemma set_positions_of: "set (positions_of ys xs) = set ys \<times> set xs"
  by (auto simp: positions_of_def)

lemma length_positions_of: "length (positions_of ys xs) = length ys * length xs"
  by (induction ys) (simp_all add: positions_of_def)

lemma length_all_deltas: "length (all_deltas ps) = length ps * length ps"
proof -
  have "length (concat (map (\<lambda>p. map (\<lambda>q. pos_sub p q) qs) ps)) = length ps * length qs" for qs
    by (induction ps) simp_all
  then show ?thesis by (simp add: all_deltas_def)
qed

lemma mem_all_deltas: "p \<in> set ps \<Longrightarrow> q \<in> set ps \<Longrightarrow> pos_sub p q \<in> set (all_deltas ps)"
  by (auto simp: all_deltas_def)

lemma set_all_deltas_grid:
  assumes "1 \<le> h" "1 \<le> w"
  shows "set (all_deltas (positions_of [0..h - 1] [0..w - 1])) = {- (h - 1)..h - 1} \<times> {- (w - 1)..w - 1}"
    (is "?L = ?R")
proof
  show "?L \<subseteq> ?R"
    by (auto simp: all_deltas_def set_positions_of pos_sub_def)
  show "?R \<subseteq> ?L"
  proof
    fix d assume d: "d \<in> ?R"
    obtain dy dx where [simp]: "d = (dy, dx)" by (cases d)
    let ?p = "(max dy 0, max dx 0)" and ?q = "(max (- dy) 0, max (- dx) 0)"
    have "?p \<in> set (positions_of [0..h - 1] [0..w - 1])" "?q \<in> set (positions_of [0..h - 1] [0..w - 1])"
      using d assms by (auto simp: set_positions_of)
    then have "pos_sub ?p ?q \<in> ?L" by (rule mem_all_deltas)
    moreover have "pos_sub ?p ?q = d" by (simp add: pos_sub_def max_def)
    ultimately show "d \<in> ?L" by simp
  qed
qed

lemma card_delta_grid:
  assumes "1 \<le> h" "1 \<le> w"
  shows "int (card ({- (h - 1)..h - 1} \<times> {- (w - 1)..w - 1})) = (2 * h - 1) * (2 * w - 1)"
  using assms by (simp add: card_cartesian_product)


lemma gen_input_Inr:
  assumes "gen_input e (h, w) = Inr (idx, ud)"
  shows "1 \<le> h \<and> 1 \<le> w \<and>
         emap (list_index (sort (e (all_deltas (positions_of [0..h - 1] [0..w - 1])))))
              (all_deltas (positions_of [0..h - 1] [0..w - 1])) = Inr idx \<and>
         (\<exists>m. abs_max (sort (e (all_deltas (positions_of [0..h - 1] [0..w - 1])))) = Inr m \<and>
              ud = normalize m (sort (e (all_deltas (positions_of [0..h - 1] [0..w - 1])))))"
proof -
  from assms have hw: "0 \<le> h" "0 \<le> w"
    by (auto simp: gen_input_def arange_def ebind_def split: if_splits)
  from assms hw have ne: "positions_of [0..h - 1] [0..w - 1] \<noteq> []"
    by (auto simp: gen_input_def arange_def ebind_def delta_rows_def split: if_splits)
  then have "length (positions_of [0..h - 1] [0..w - 1]) \<noteq> 0" by simp
  then have "1 \<le> h" "1 \<le> w" using hw
    by (auto simp: length_positions_of)
  moreover from assms hw ne
  have "emap (list_index (sort (e (all_deltas (positions_of [0..h - 1] [0..w - 1])))))
              (all_deltas (positions_of [0..h - 1] [0..w - 1])) = Inr idx \<and>
         (\<exists>m. abs_max (sort (e (all_deltas (positions_of [0..h - 1] [0..w - 1])))) = Inr m \<and>
              ud = normalize m (sort (e (all_deltas (positions_of [0..h - 1] [0..w - 1])))))"
    by (auto simp: gen_input_def arange_def ebind_def delta_rows_def Let_def split: sum.splits)
  ultimately show ?thesis by simp
qed

lemma length_normalize: "length (normalize m us) = length us"
  by (simp add: normalize_def)

lemma unique_count:
  assumes "set_enum e" "1 \<le> h" "1 \<le> w"
  shows "int (length (sort (e (all_deltas (positions_of [0..h - 1] [0..w - 1]))))) = (2 * h - 1) * (2 * w - 1)"
proof -
  let ?D = "all_deltas (positions_of [0..h - 1] [0..w - 1])"
  have "distinct (e ?D)" "set (e ?D) = set ?D"
    using assms(1) by (simp_all add: set_enum_def)
  then have "length (e ?D) = card (set ?D)"
    by (metis distinct_card)
  then show ?thesis
    using card_delta_grid[OF assms(2,3)] set_all_deltas_grid[OF assms(2,3)] by simp
qed

lemma index_ok:
  assumes "set_enum e" "emap (list_index (sort (e ds))) ds = Inr idx"
  shows "length idx = length ds \<and> (\<forall>i \<in> set idx. i < length (sort (e ds)))"
  using emap_Inr_length[OF assms(2)] emap_Inr_set[OF assms(2)] list_index_Inr by fastforce

lemma index_total:
  assumes "set_enum e"
  shows "\<exists>idx. emap (list_index (sort (e ds))) ds = Inr idx"
proof (rule emap_total)
  fix x assume "x \<in> set ds"
  then have "x \<in> set (sort (e ds))" using assms by (simp add: set_enum_def)
  then show "\<exists>y. list_index (sort (e ds)) x = Inr y" using list_index_mem by fastforce
qed

lemma gen_input_total:
  assumes "set_enum e" "1 \<le> h" "1 \<le> w"
  shows "\<exists>idx ud. gen_input e (h, w) = Inr (idx, ud)"
proof -
  let ?D = "all_deltas (positions_of [0..h - 1] [0..w - 1])"
  have "length (positions_of [0..h - 1] [0..w - 1]) \<noteq> 0"
    using assms by (simp add: length_positions_of)
  then have ne: "positions_of [0..h - 1] [0..w - 1] \<noteq> []" by auto
  obtain idx where idx: "emap (list_index (sort (e ?D))) ?D = Inr idx"
    using index_total[OF assms(1)] by blast
  have "int (length (sort (e ?D))) \<noteq> 0"
    using unique_count[OF assms] assms by simp
  then have "sort (e ?D) \<noteq> []" by (metis list.size(3) of_nat_0)
  then obtain m where "abs_max (sort (e ?D)) = Inr m" by (simp add: abs_max_def)
  with idx ne assms show ?thesis
    by (simp add: gen_input_def arange_def ebind_def delta_rows_def)
qed

text \<open>The constructor stores what \<open>_gen_input\<close> returns for the window as a pair.\<close>

lemma WindowScoreBias_init_tables:
  "WindowScoreBias_init e window_size = Inr r \<longleftrightarrow>
     gen_input e (window_pair window_size) = Inr (wsb_index r, wsb_delta r) \<and>
     wsb_window_size r = window_pair window_size \<and> WindowScoreBias.more r = ()"
  by (cases "gen_input e (window_pair window_size)")
     (auto simp: WindowScoreBias_init_def window_pair_def Let_def ebind_def split: window_arg.splits)

lemma sort_enum_unique:
  assumes "set_enum e1" "set_enum e2"
  shows "sort (e1 ds) = sort (e2 ds)"
proof (rule sorted_distinct_set_unique)
  show "sorted (sort (e1 ds))" "sorted (sort (e2 ds))" by simp_all
  show "distinct (sort (e1 ds))" "distinct (sort (e2 ds))"
    using assms by (simp_all add: set_enum_def)
  show "set (sort (e1 ds)) = set (sort (e2 ds))"
    using assms by (simp add: set_enum_def)
qed

lemma gen_input_enum:
  assumes "set_enum e1" "set_enum e2"
  shows "gen_input e1 window_size = gen_input e2 window_size"
  unfolding gen_input_def Let_def using sort_enum_unique[OF assms] by simp

text \<open>
  Claim C9. Table construction is deterministic: whatever order the iteration over
  \<open>set(delta)\<close> takes, sorting brings the unique deltas into the same order, so two
  constructions for the same window geometry give the same index array and the same
  unique-delta table (or fail alike).
\<close>

theorem gen_input_deterministic:
  assumes "set_enum e1" "set_enum e2"
  shows "gen_input e1 window_size = gen_input e2 window_size \<and>
         WindowScoreBias_init e1 window_arg = WindowScoreBias_init e2 window_arg"
  unfolding WindowScoreBias_init_def Let_def
  using gen_input_enum[OF assms] by simp

text \<open>
  Claim C1. Whenever \<open>_gen_input\<close> returns its tables for a window \<open>(h, w)\<close>, the
  unique-delta table has at most \<open>(2h - 1)(2w - 1)\<close> rows, the index array has exactly
  \<open>(h w)\<^sup>2\<close> entries and every entry is a valid row number of the table; for the
  window \<open>(2, 2)\<close> these are 9 rows, 16 entries and indices below 9.
\<close>

theorem gen_input_table_sizes:
  assumes "set_enum e" "gen_input e (h, w) = Inr (idx, ud)"
  shows "int (length ud) \<le> (2 * h - 1) * (2 * w - 1) \<and>
         int (length idx) = (h * w)\<^sup>2 \<and>
         (\<forall>i \<in> set idx. i < length ud) \<and>
         (h = 2 \<and> w = 2 \<longrightarrow> length ud = 9 \<and> length idx = 16 \<and> (\<forall>i \<in> set idx. i < 9))"
proof -
  let ?D = "all_deltas (positions_of [0..h - 1] [0..w - 1])"
  from gen_input_Inr[OF assms(2)] obtain m where
    hw: "1 \<le> h" "1 \<le> w" and idx: "emap (list_index (sort (e ?D))) ?D = Inr idx"
    and ud: "ud = normalize m (sort (e ?D))" by blast
  have len_ud: "int (length ud) = (2 * h - 1) * (2 * w - 1)"
    using unique_count[OF assms(1) hw] ud by (simp add: length_normalize)
  have "length idx = length ?D" and valid: "\<forall>i \<in> set idx. i < length ud"
    using index_ok[OF assms(1) idx] ud by (simp_all add: length_normalize)
  then have "length idx = (nat h * nat w) * (nat h * nat w)"
    using hw by (simp add: length_all_deltas length_positions_of)
  then have "int (length idx) = (h * w) * (h * w)"
    using hw by simp
  then have len_idx: "int (length idx) = (h * w)\<^sup>2" by (simp add: power2_eq_square)
  have "h = 2 \<and> w = 2 \<longrightarrow> length ud = 9 \<and> length idx = 16 \<and> (\<forall>i \<in> set idx. i < 9)"
  proof
    assume "h = 2 \<and> w = 2"
    with len_ud len_idx have "int (length ud) = 9" "int (length idx) = 16" by simp_all
    then have "length ud = 9" "length idx = 16" by linarith+
    with valid show "length ud = 9 \<and> length idx = 16 \<and> (\<forall>i \<in> set idx. i < 9)" by simp
  qed
  with len_ud len_idx valid show ?thesis by simp
qed

text \<open>
  Claim C10. For \<open>h \<ge> 1\<close> and \<open>w \<ge> 1\<close> the construction succeeds and the number of
  unique deltas is exactly \<open>(2h - 1)(2w - 1)\<close>.
\<close>

theorem gen_input_unique_count_exact:
  assumes "set_enum e" "1 \<le> h" "1 \<le> w"
  shows "\<exists>idx ud. gen_input e (h, w) = Inr (idx, ud) \<and> int (length ud) = (2 * h - 1) * (2 * w - 1)"
proof -
  obtain idx ud where g: "gen_input e (h, w) = Inr (idx, ud)"
    using gen_input_total[OF assms] by blast
  from gen_input_Inr[OF g] obtain m where
    "ud = normalize m (sort (e (all_deltas (positions_of [0..h - 1] [0..w - 1]))))" by blast
  then have "int (length ud) = (2 * h - 1) * (2 * w - 1)"
    using unique_count[OF assms] by (simp add: length_normalize)
  with g show ?thesis by blast
qed


lemma set_enum_remdups: "set_enum remdups"
  by (simp add: set_enum_def)

lemma set_enum_rev_remdups: "set_enum (rev \<circ> remdups)"
  by (simp add: set_enum_def)

lemma gen_input_2_2:
  "gen_input remdups (2, 2) =
     Inr ([4, 3, 1, 0, 5, 4, 2, 1, 7, 6, 4, 3, 8, 7, 5, 4],
          [[Fin (- 1), Fin (- 1)], [Fin (- 1), Fin 0], [Fin (- 1), Fin 1],
           [Fin 0, Fin (- 1)], [Fin 0, Fin 0], [Fin 0, Fin 1],
           [Fin 1, Fin (- 1)], [Fin 1, Fin 0], [Fin 1, Fin 1]])"
  by code_simp

lemma gen_input_1_1: "gen_input remdups (1, 1) = Inr ([0], [[NaN, NaN]])"
  by code_simp

theorem gen_input_table_sizes_witness:
  "set_enum remdups \<and>
   gen_input remdups (2, 2) =
     Inr ([4, 3, 1, 0, 5, 4, 2, 1, 7, 6, 4, 3, 8, 7, 5, 4],
          [[Fin (- 1), Fin (- 1)], [Fin (- 1), Fin 0], [Fin (- 1), Fin 1],
           [Fin 0, Fin (- 1)], [Fin 0, Fin 0], [Fin 0, Fin 1],
           [Fin 1, Fin (- 1)], [Fin 1, Fin 0], [Fin 1, Fin 1]]) \<and>
   length [[Fin (- 1), Fin (- 1)], [Fin (- 1), Fin 0], [Fin (- 1), Fin 1],
           [Fin 0, Fin (- 1)], [Fin 0, Fin 0], [Fin 0, Fin 1],
           [Fin 1, Fin (- 1)], [Fin 1, Fin 0], [Fin 1, Fin 1]] = 9 \<and>
   length [4, 3, 1, 0, 5, 4, 2, 1, 7, 6, 4, 3, 8, 7, 5, 4 :: nat] = 16 \<and>
   list_all (\<lambda>i. i < 9) [4, 3, 1, 0, 5, 4, 2, 1, 7, 6, 4, 3, 8, 7, 5, 4 :: nat]"
  using gen_input_table_sizes [OF set_enum_remdups gen_input_2_2] set_enum_remdups gen_input_2_2
  by simp

theorem gen_input_deterministic_witness:
  "set_enum remdups \<and> set_enum (rev \<circ> remdups) \<and>
   gen_input remdups (2, 2) = gen_input (rev \<circ> remdups) (2, 2) \<and>
   WindowScoreBias_init remdups (WInt 2) = WindowScoreBias_init (rev \<circ> remdups) (WInt 2)"
  using gen_input_deterministic [OF set_enum_remdups set_enum_rev_remdups, of "(2, 2)" "WInt 2"]
    set_enum_remdups set_enum_rev_remdups
  by simp

theorem gen_input_unique_count_exact_witness:
  "set_enum remdups \<and> (1::int) \<le> 2 \<and> (1::int) \<le> 3 \<and>
   (\<exists>idx ud. gen_input remdups (2, 3) = Inr (idx, ud) \<and> int (length ud) = (2 * 2 - 1) * (2 * 3 - 1))"
  using gen_input_unique_count_exact [OF set_enum_remdups, of 2 3] set_enum_remdups
  by simp

text \<open>
  Claim C7. The buffer is the unique-delta table divided by its maximum absolute
  component. For the window \<open>(1, 1)\<close> the only delta is \<open>(0, 0)\<close>, the maximum is
  \<open>0\<close>, and the division \<open>0 / 0\<close> leaves NaN in both components: the buffer is not
  within \<open>[-1, 1]\<close> there.
\<close>

theorem gen_input_1_1_nan:
  assumes "set_enum e"
  shows "gen_input e (1, 1) = Inr ([0], [[NaN, NaN]])"
  using gen_input_enum [OF assms set_enum_remdups, of "(1, 1)"] gen_input_1_1 by simp

lemma abs_max_Inr:
  assumes "abs_max us = Inr m" "p \<in> set us"
  shows "\<bar>fst p\<bar> \<le> m \<and> \<bar>snd p\<bar> \<le> m"
proof -
  let ?S = "set (concat (map (\<lambda>p. [\<bar>fst p\<bar>, \<bar>snd p\<bar>]) us))"
  from assms have m: "m = Max ?S" by (auto simp: abs_max_def split: if_splits)
  have "\<bar>fst p\<bar> \<in> ?S" "\<bar>snd p\<bar> \<in> ?S" using assms(2) by auto
  then show ?thesis unfolding m by (simp add: Max_ge)
qed

lemma fdiv_between:
  assumes "\<bar>a\<bar> \<le> m" "1 \<le> m"
  shows "f32_between (- 1) 1 (fdiv (of_int a) (of_int m))"
proof -
  have "(of_int a :: rat) \<le> of_int m" "- (of_int m :: rat) \<le> of_int a" "(0::rat) < of_int m"
    using assms by (simp_all flip: of_int_minus add: abs_le_iff)
  then show ?thesis
    by (simp add: fdiv_def le_divide_eq)
qed

lemma normalized_in_range:
  assumes "set_enum e" "gen_input e (h, w) = Inr (idx, ud)" "1 < h * w"
  shows "\<forall>row \<in> set ud. \<forall>c \<in> set row. f32_between (- 1) 1 c"
proof -
  let ?U = "sort (e (all_deltas (positions_of [0..h - 1] [0..w - 1])))"
  from gen_input_Inr[OF assms(2)] obtain m where
    hw: "1 \<le> h" "1 \<le> w" and m: "abs_max ?U = Inr m" and ud: "ud = normalize m ?U" by blast
  have setU: "set ?U = {- (h - 1)..h - 1} \<times> {- (w - 1)..w - 1}"
    using assms(1) set_all_deltas_grid[OF hw] by (simp add: set_enum_def)
  from hw assms(3) have "2 \<le> h \<or> 2 \<le> w"
    by (smt (verit) mult_cancel_left1 mult_cancel_right1)
  moreover have "(h - 1, w - 1) \<in> set ?U" using hw unfolding setU by simp
  from abs_max_Inr[OF m this] have "\<bar>h - 1\<bar> \<le> m" "\<bar>w - 1\<bar> \<le> m" by simp_all
  ultimately have m1: "1 \<le> m" by linarith
  show ?thesis
  proof (intro ballI)
    fix row c assume "row \<in> set ud" "c \<in> set row"
    then obtain p where p: "p \<in> set ?U"
      and c: "c = fdiv (of_int (fst p)) (of_int m) \<or> c = fdiv (of_int (snd p)) (of_int m)"
      unfolding ud normalize_def by auto
    from abs_max_Inr[OF m p] have "\<bar>fst p\<bar> \<le> m" "\<bar>snd p\<bar> \<le> m" by simp_all
    with c m1 show "f32_between (- 1) 1 c" using fdiv_between by blast
  qed
qed

theorem gen_input_1_1_nan_witness:
  "set_enum remdups \<and> gen_input remdups (1, 1) = Inr ([0], [[NaN, NaN]]) \<and>
   \<not> f32_between (- 1) 1 NaN"
  using gen_input_1_1_nan [OF set_enum_remdups] set_enum_remdups
  by simp


section \<open>Properties of the attention operators\<close>

lemma ebind_Inr [simp]: "ebind (Inr x) f = f x"
  by (simp add: ebind_def)

lemma ebind_Inl [simp]: "ebind (Inl e) f = Inl e"
  by (simp add: ebind_def)

lemma reshape4_ok:
  "0 \<le> a \<Longrightarrow> 0 \<le> b \<Longrightarrow> 0 \<le> c \<Longrightarrow> 0 \<le> d \<Longrightarrow> a * b * c * d = numel s \<Longrightarrow>
   reshape s [a, b, c, d] = Inr [a, b, c, d]"
  by (simp add: reshape_def)

lemma reshape3_ok:
  "0 \<le> a \<Longrightarrow> 0 \<le> b \<Longrightarrow> 0 \<le> c \<Longrightarrow> a * b * c = numel s \<Longrightarrow>
   reshape s [a, b, c] = Inr [a, b, c]"
  by (simp add: reshape_def)

lemma permute_0213: "permute [a, b, c, d] [0, 2, Suc 0, 3] = Inr [a, c, b, d]"
  by (simp add: permute_def)

lemma div_pred:
  fixes S k :: int
  assumes "0 < S"
  shows "(k * S - 1) div S = k - 1"
proof -
  have "k * S - 1 = (S - 1) + (k - 1) * S" by (simp add: algebra_simps)
  then have "(k * S - 1) div S = ((S - 1) + (k - 1) * S) div S" by (rule arg_cong)
  also have "\<dots> = (k - 1) + (S - 1) div S"
    using assms by (simp only: div_mult_self1)
  also have "(S - 1) div S = 0" using assms by (simp add: div_pos_pos_trivial)
  finally show ?thesis by simp
qed

lemma upto_0_2: "[0..2::int] = [0, 1, 2]"
  by code_simp

lemma upto_0_1: "[0..1::int] = [0, 1]"
  by code_simp

lemma split3:
  assumes "0 < S"
  shows "split_last [B, N, S * 3] S = Inr [[B, N, S], [B, N, S], [B, N, S]]"
  using assms by (simp add: split_last_def div_pred upto_0_2)

lemma split2:
  assumes "0 < S"
  shows "split_last [B, N, S * 2] S = Inr [[B, N, S], [B, N, S]]"
  using assms by (simp add: split_last_def div_pred upto_0_1)

lemma sdpa_ok:
  "mask_fits attn_mask [B, H, N, N] \<Longrightarrow>
   scaled_dot_product_attention fused [B, H, N, D] [B, H, N, D] [B, H, N, D] attn_mask False
     = Inr [B, H, N, D]"
  by (auto simp: scaled_dot_product_attention_def mask_fits_def split: option.splits)

lemma sliced_sdp_ok:
  assumes "0 \<le> B" "0 \<le> N" "0 < num_heads" "0 \<le> D" "mask_fits attn_mask [B, num_heads, N, N]"
  shows "sliced_sdp [B, N, D * num_heads] [B, N, D * num_heads] [B, N, D * num_heads] num_heads attn_mask False
           = Inr [B, N, D * num_heads]"
proof -
  have d: "D * num_heads div num_heads = D" "D * num_heads mod num_heads = 0"
    using assms(3) by simp_all
  have r: "reshape [B, N, D * num_heads] [B, N, num_heads, D] = Inr [B, N, num_heads, D]"
    using assms by (intro reshape4_ok) (simp_all add: numel_def mult.commute)
  have r': "reshape [B, N, num_heads, D] [B, N, D * num_heads] = Inr [B, N, D * num_heads]"
    using assms by (intro reshape3_ok) (simp_all add: numel_def mult.commute)
  show ?thesis
    using assms(3) by (simp add: sliced_sdp_def d r r' permute_0213 sdpa_ok[OF assms(5)])
qed


lemma MHA_init_ok:
  assumes "has_sdpa" "0 \<le> E" "0 \<le> head_dim E H qkv * H" "qkv = None \<longrightarrow> H \<noteq> 0 \<and> E mod H = 0"
  shows "MHA_init has_sdpa E H qkv =
           Inr \<lparr>mha_qkv_dim = head_dim E H qkv, mha_num_heads = H,
              mha_qkv_proj = \<lparr>in_features = E, out_features = head_dim E H qkv * H * 3\<rparr>,
              mha_head_proj = \<lparr>in_features = head_dim E H qkv * H, out_features = E\<rparr>\<rparr>"
  using assms
  by (auto simp: MHA_init_def Linear_init_def head_dim_def split: option.splits)

lemma MHA_forward_ok:
  assumes "mha_qkv_dim m = D" "mha_num_heads m = H"
    "mha_qkv_proj m = \<lparr>in_features = E, out_features = D * H * 3\<rparr>"
    "mha_head_proj m = \<lparr>in_features = D * H, out_features = E\<rparr>"
    "0 < D" "0 < H" "0 \<le> B" "0 \<le> N" "mask_fits attn_mask [B, H, N, N]"
  shows "MHA_forward m [B, N, E] attn_mask False = Inr [B, N, E]"
proof -
  have S: "0 < D * H" using assms(5,6) by simp
  have "sliced_sdp [B, N, D * H] [B, N, D * H] [B, N, D * H] H attn_mask False = Inr [B, N, D * H]"
    using assms by (intro sliced_sdp_ok) simp_all
  then show ?thesis
    using assms(1-4) by (simp add: MHA_forward_def Linear_forward_def split3[OF S])
qed

lemma CrossMHA_init_ok:
  assumes "has_sdpa" "0 \<le> E" "0 \<le> head_dim E H qkv * H" "qkv = None \<longrightarrow> H \<noteq> 0 \<and> E mod H = 0"
  shows "CrossMHA_init has_sdpa E H qkv =
           Inr \<lparr>cmha_qkv_dim = head_dim E H qkv, cmha_num_heads = H,
              cmha_q_proj = \<lparr>in_features = E, out_features = head_dim E H qkv * H\<rparr>,
              cmha_kv_proj = \<lparr>in_features = E, out_features = head_dim E H qkv * H * 2\<rparr>,
              cmha_head_proj = \<lparr>in_features = head_dim E H qkv * H, out_features = E\<rparr>\<rparr>"
  using assms
  by (auto simp: CrossMHA_init_def Linear_init_def head_dim_def split: option.splits)

lemma CrossMHA_forward_ok:
  assumes "cmha_qkv_dim m = D" "cmha_num_heads m = H"
    "cmha_q_proj m = \<lparr>in_features = E, out_features = D * H\<rparr>"
    "cmha_kv_proj m = \<lparr>in_features = E, out_features = D * H * 2\<rparr>"
    "cmha_head_proj m = \<lparr>in_features = D * H, out_features = E\<rparr>"
    "0 < D" "0 < H" "0 \<le> B" "0 \<le> N" "mask_fits attn_mask [B, H, N, N]"
  shows "CrossMHA_forward m [B, N, E] [B, N, E] attn_mask False = Inr [B, N, E]"
proof -
  have S: "0 < D * H" using assms(6,7) by simp
  have "sliced_sdp [B, N, D * H] [B, N, D * H] [B, N, D * H] H attn_mask False = Inr [B, N, D * H]"
    using assms by (intro sliced_sdp_ok) simp_all
  then show ?thesis
    using assms(1-5) by (simp add: CrossMHA_forward_def Linear_forward_def split2[OF S])
qed

text \<open>
  Claim C2 says that \<open>sliced_sdp\<close> leaves the divisibility of the channel count by
  \<open>num_heads\<close> to its callers. The code asserts it: three channels and two heads
  raise the assertion.
\<close>

theorem sliced_sdp_asserts_divisibility:
  "(3::int) mod 2 \<noteq> 0 \<and> sliced_sdp [1, 1, 3] [1, 1, 3] [1, 1, 3] 2 None False = Inl AssertionError"
  by (simp add: sliced_sdp_def)

text \<open>
  Claim C2, amended. \<open>sliced_sdp\<close> checks the divisibility itself: for a
  three-dimensional \<open>q\<close> whose channel count is not a multiple of a non-zero
  \<open>num_heads\<close> it raises an assertion failure, whatever the other arguments.
\<close>

theorem sliced_sdp_indivisible_raises:
  assumes "num_heads \<noteq> 0" "C mod num_heads \<noteq> 0"
  shows "sliced_sdp [B, N, C] k v num_heads attn_mask is_causal = Inl AssertionError"
  using assms by (simp add: sliced_sdp_def)

theorem sliced_sdp_indivisible_raises_witness:
  "(2::int) \<noteq> 0 \<and> (3::int) mod 2 \<noteq> 0 \<and>
   sliced_sdp [1, 1, 3] [1, 1, 3] [1, 1, 3] 2 None False = Inl AssertionError"
  using sliced_sdp_indivisible_raises [of 2 3 1 1 "[1, 1, 3]" "[1, 1, 3]" None False] by simp

text \<open>
  Claim C5. \<open>CrossMHA.forward\<close> raises on every call in which the shapes of \<open>q\<close>
  and \<open>kv\<close> differ.
\<close>

theorem CrossMHA_forward_shape_mismatch:
  assumes "q \<noteq> kv"
  shows "CrossMHA_forward m q kv attn_mask is_causal = Inl AssertionError"
  using assms by (simp add: CrossMHA_forward_def)

lemma CrossMHA_init_32_4:
  "CrossMHA_init True 32 4 None =
     Inr \<lparr>cmha_qkv_dim = 8, cmha_num_heads = 4,
          cmha_q_proj = \<lparr>in_features = 32, out_features = 32\<rparr>,
          cmha_kv_proj = \<lparr>in_features = 32, out_features = 64\<rparr>,
          cmha_head_proj = \<lparr>in_features = 32, out_features = 32\<rparr>\<rparr>"
  by (simp add: CrossMHA_init_def Linear_init_def)

theorem CrossMHA_forward_shape_mismatch_witness:
  "[4, 9, 32] \<noteq> [4, 10, 32 :: int] \<and>
   CrossMHA_init True 32 4 None =
     Inr \<lparr>cmha_qkv_dim = 8, cmha_num_heads = 4,
          cmha_q_proj = \<lparr>in_features = 32, out_features = 32\<rparr>,
          cmha_kv_proj = \<lparr>in_features = 32, out_features = 64\<rparr>,
          cmha_head_proj = \<lparr>in_features = 32, out_features = 32\<rparr>\<rparr> \<and>
   CrossMHA_forward \<lparr>cmha_qkv_dim = 8, cmha_num_heads = 4,
          cmha_q_proj = \<lparr>in_features = 32, out_features = 32\<rparr>,
          cmha_kv_proj = \<lparr>in_features = 32, out_features = 64\<rparr>,
          cmha_head_proj = \<lparr>in_features = 32, out_features = 32\<rparr>\<rparr>
      [4, 9, 32] [4, 10, 32] None False = Inl AssertionError"
  using CrossMHA_forward_shape_mismatch [of "[4, 9, 32]" "[4, 10, 32]" _ None False] CrossMHA_init_32_4 by simp

text \<open>
  The kernels enabled around the attention call depend on the batch size alone: above
  65535 only the reference kernel, otherwise the fused kernels together with it.
\<close>

lemma sliced_sdp_backends_policy:
  "sliced_sdp_backends True B = (if 65535 < B then [MATH] else [FLASH_ATTENTION, EFFICIENT_ATTENTION, MATH])"
  "set (sliced_sdp_backends False B) = (if 65535 < B then {MATH} else {FLASH_ATTENTION, EFFICIENT_ATTENTION, MATH})"
  by (auto simp: sliced_sdp_backends_def use_flash_attention_def)

lemma MHA_init_fails_iff:
  assumes "has_sdpa" "0 \<le> embed_dim" "\<forall>d. qkv_dim = Some d \<longrightarrow> 0 \<le> d * num_heads"
  shows "isl (MHA_init has_sdpa embed_dim num_heads qkv_dim) \<longleftrightarrow>
           qkv_dim = None \<and> (num_heads = 0 \<or> embed_dim mod num_heads \<noteq> 0)"
proof (cases qkv_dim)
  case None
  show ?thesis
  proof (cases "num_heads = 0 \<or> embed_dim mod num_heads \<noteq> 0")
    case True
    then show ?thesis using None assms(1) by (auto simp: MHA_init_def)
  next
    case False
    then have "embed_dim div num_heads * num_heads = embed_dim"
      by (simp add: mod_eq_0_iff_dvd)
    then have "0 \<le> head_dim embed_dim num_heads qkv_dim * num_heads"
      using assms(2) None by (simp add: head_dim_def)
    from MHA_init_ok[OF assms(1,2) this] False None show ?thesis by simp
  qed
next
  case (Some d)
  then have "0 \<le> head_dim embed_dim num_heads qkv_dim * num_heads"
    using assms(3) by (simp add: head_dim_def)
  from MHA_init_ok[OF assms(1,2) this] Some show ?thesis by simp
qed

lemma MHA_init_64_8:
  "MHA_init True 64 8 None =
     Inr \<lparr>mha_qkv_dim = 8, mha_num_heads = 8,
          mha_qkv_proj = \<lparr>in_features = 64, out_features = 192\<rparr>,
          mha_head_proj = \<lparr>in_features = 64, out_features = 64\<rparr>\<rparr>"
  by (simp add: MHA_init_def Linear_init_def)

lemma MHA_64_8_forward:
  "MHA_forward \<lparr>mha_qkv_dim = 8, mha_num_heads = 8,
          mha_qkv_proj = \<lparr>in_features = 64, out_features = 192\<rparr>,
          mha_head_proj = \<lparr>in_features = 64, out_features = 64\<rparr>\<rparr> [2, 16, 64] None False = Inr [2, 16, 64]"
  by (rule MHA_forward_ok[where D = 8 and H = 8]) (simp_all add: mask_fits_def)

lemma MHA_init_64_7: "MHA_init True 64 7 None = Inl AssertionError"
  by (simp add: MHA_init_def)

lemma MHA_init_64_7_explicit:
  assumes "0 \<le> d"
  shows "MHA_init True 64 7 (Some d) =
     Inr \<lparr>mha_qkv_dim = d, mha_num_heads = 7,
          mha_qkv_proj = \<lparr>in_features = 64, out_features = d * 7 * 3\<rparr>,
          mha_head_proj = \<lparr>in_features = d * 7, out_features = 64\<rparr>\<rparr>"
  using assms by (simp add: MHA_init_def Linear_init_def)

text \<open>
  Claim C4 says that construction fails exactly when \<open>embed_dim\<close> is not a multiple
  of \<open>num_heads\<close> and no \<open>qkv_dim\<close> is given. With 64 a multiple of 8, construction
  still fails in a torch without \<open>F.scaled_dot_product_attention\<close>, and with an
  explicit negative \<open>qkv_dim\<close>, for which no projection can be allocated.
\<close>

theorem MHA_init_other_failures:
  "(64::int) mod 8 = 0 \<and> MHA_init False 64 8 None = Inl AssertionError \<and>
   MHA_init True 64 8 (Some (- 1)) = Inl RuntimeError"
  by (simp add: MHA_init_def Linear_init_def)

text \<open>
  Claim C4, amended. In a torch that has \<open>F.scaled_dot_product_attention\<close>, for a
  non-negative \<open>embed_dim\<close> and an explicit \<open>qkv_dim\<close>, if any, that gives a
  non-negative projection width, construction fails exactly when no \<open>qkv_dim\<close> is
  given and \<open>embed_dim\<close> is not a multiple of \<open>num_heads\<close> (or \<open>num_heads\<close> is 0).
  \<open>MHA(64, 7)\<close> fails, \<open>MHA(64, 7, qkv_dim)\<close> succeeds for every non-negative
  \<open>qkv_dim\<close>, and \<open>MHA(64, 8)\<close> succeeds and maps the shape \<open>(2, 16, 64)\<close> to itself.
\<close>

theorem MHA_init_fails_exactly:
  assumes "has_sdpa" "0 \<le> embed_dim" "\<forall>d. qkv_dim = Some d \<longrightarrow> 0 \<le> d * num_heads"
  shows "(isl (MHA_init has_sdpa embed_dim num_heads qkv_dim) \<longleftrightarrow>
            qkv_dim = None \<and> (num_heads = 0 \<or> embed_dim mod num_heads \<noteq> 0)) \<and>
         isl (MHA_init has_sdpa 64 7 None) \<and>
         (\<forall>d\<ge>0. \<not> isl (MHA_init has_sdpa 64 7 (Some d))) \<and>
         (\<exists>m. MHA_init has_sdpa 64 8 None = Inr m \<and> MHA_forward m [2, 16, 64] None False = Inr [2, 16, 64])"
proof -
  have hs: "has_sdpa = True" using assms(1) by simp
  show ?thesis
    unfolding hs
    using MHA_init_fails_iff[OF _ assms(2,3), of True] MHA_init_64_7 MHA_init_64_7_explicit
      MHA_init_64_8 MHA_64_8_forward
    by simp
qed

theorem MHA_init_fails_exactly_witness:
  "(0::int) \<le> 64 \<and>
   (isl (MHA_init True 64 7 None) \<longleftrightarrow> True) \<and>
   \<not> isl (MHA_init True 64 7 (Some 9)) \<and>
   \<not> isl (MHA_init True 64 8 None) \<and>
   (\<exists>m. MHA_init True 64 8 None = Inr m \<and> MHA_forward m [2, 16, 64] None False = Inr [2, 16, 64])"
  using MHA_init_fails_exactly [of True 64 None 7] MHA_init_fails_exactly [of True 64 "Some 9" 7]
    MHA_init_fails_exactly [of True 64 None 8]
  by simp

lemma apply_norm_keeps: "norm_keeps layer_norm s \<Longrightarrow> apply_norm layer_norm s = Inr s"
  by (simp add: norm_keeps_def apply_norm_def split: option.splits)

lemma bchw_to_bnc_ok:
  assumes "0 < wh" "0 < ww" "H mod wh = 0" "W mod ww = 0"
  shows "bchw_to_bnc [B, C, H, W] (wh, ww) = Inr [B * (H div wh) * (W div ww), wh * ww, C]"
  using assms by (simp add: bchw_to_bnc_def)

lemma bnc_to_bchw_ok:
  assumes "0 < wh" "0 < ww" "H mod wh = 0" "W mod ww = 0"
  shows "bnc_to_bchw [B * (H div wh) * (W div ww), wh * ww, C] [B, C, H, W] (wh, ww) = Inr [B, C, H, W]"
  using assms by (simp add: bnc_to_bchw_def bchw_to_bnc_def)

lemma head_dim_pos:
  fixes C num_heads :: int
  assumes "0 < C" "0 < num_heads" "qkv_dim = None \<longrightarrow> C mod num_heads = 0"
    "\<forall>d. qkv_dim = Some d \<longrightarrow> 0 < d"
  shows "0 < head_dim C num_heads qkv_dim"
proof (cases qkv_dim)
  case None
  with assms(3) have "num_heads dvd C" by (simp add: mod_eq_0_iff_dvd)
  then have "num_heads \<le> C" using assms(1) by (rule zdvd_imp_le)
  then show ?thesis using None assms(2) by (simp add: head_dim_def pos_imp_zdiv_pos_iff)
next
  case (Some d)
  then show ?thesis using assms(4) by (simp add: head_dim_def)
qed

lemma windows_nonneg:
  fixes B H W wh ww :: int
  assumes "0 < B" "0 < H" "0 < W" "0 < wh" "0 < ww"
  shows "0 \<le> B * (H div wh) * (W div ww)"
proof -
  have "0 \<le> H div wh" "0 \<le> W div ww"
    using assms by (simp_all add: pos_imp_zdiv_nonneg_iff)
  then show ?thesis using assms(1) by simp
qed


lemma WindowMHA2d_ok:
  fixes B C H W wh ww num_heads :: int
  assumes "0 < B" "0 < C" "0 < H" "0 < W" "0 < wh" "0 < ww" "H mod wh = 0" "W mod ww = 0"
    and "0 < num_heads" "qkv_dim = None \<longrightarrow> C mod num_heads = 0" "\<forall>d. qkv_dim = Some d \<longrightarrow> 0 < d"
    and "mask_fits attn_mask [B * (H div wh) * (W div ww), num_heads, wh * ww, wh * ww]"
    and "norm_keeps layer_norm [B * (H div wh) * (W div ww), wh * ww, C]"
  shows "\<exists>m. WindowMHA2d_init True C num_heads (WPair wh ww) qkv_dim = Inr m \<and>
             WindowMHA2d_forward m [B, C, H, W] attn_mask layer_norm = Inr [B, C, H, W]"
proof -
  let ?D = "head_dim C num_heads qkv_dim"
  let ?mha = "\<lparr>mha_qkv_dim = ?D, mha_num_heads = num_heads,
              mha_qkv_proj = \<lparr>in_features = C, out_features = ?D * num_heads * 3\<rparr>,
              mha_head_proj = \<lparr>in_features = ?D * num_heads, out_features = C\<rparr>\<rparr>"
  let ?nB = "B * (H div wh) * (W div ww)"
  have D: "0 < ?D" using assms(2,9,10,11) by (rule head_dim_pos)
  have init: "MHA_init True C num_heads qkv_dim = Inr ?mha"
    using assms(2,9,10) D by (intro MHA_init_ok) simp_all
  have nB: "0 \<le> ?nB" using assms(1,3,4,5,6) by (rule windows_nonneg)
  have N: "0 \<le> wh * ww" using assms(5,6) by simp
  have fwd: "MHA_forward ?mha [?nB, wh * ww, C] attn_mask False = Inr [?nB, wh * ww, C]"
    using D assms(9) nB N assms(12)
    by (intro MHA_forward_ok[where D = ?D and H = num_heads]) simp_all
  have "WindowMHA2d_forward \<lparr>wm_window_size = (wh, ww), wm_num_heads = num_heads, wm_mha = ?mha\<rparr>
          [B, C, H, W] attn_mask layer_norm = Inr [B, C, H, W]"
    using assms(5-8)
    by (simp add: WindowMHA2d_forward_def bchw_to_bnc_ok apply_norm_keeps[OF assms(13)] fwd bnc_to_bchw_ok)
  then show ?thesis
    by (simp add: WindowMHA2d_init_def init window_pair_def)
qed

lemma WindowCrossMHA2d_ok:
  fixes B C H W wh ww num_heads :: int
  assumes "0 < B" "0 < C" "0 < H" "0 < W" "0 < wh" "0 < ww" "H mod wh = 0" "W mod ww = 0"
    and "0 < num_heads" "qkv_dim = None \<longrightarrow> C mod num_heads = 0" "\<forall>d. qkv_dim = Some d \<longrightarrow> 0 < d"
    and "mask_fits attn_mask [B * (H div wh) * (W div ww), num_heads, wh * ww, wh * ww]"
    and "norm_keeps layer_norm1 [B * (H div wh) * (W div ww), wh * ww, C]"
    and "norm_keeps layer_norm2 [B * (H div wh) * (W div ww), wh * ww, C]"
  shows "\<exists>m. WindowCrossMHA2d_init True C num_heads (WPair wh ww) qkv_dim = Inr m \<and>
             WindowCrossMHA2d_forward m [B, C, H, W] [B, C, H, W] attn_mask layer_norm1 layer_norm2
               = Inr [B, C, H, W]"
proof -
  let ?D = "head_dim C num_heads qkv_dim"
  let ?mha = "\<lparr>cmha_qkv_dim = ?D, cmha_num_heads = num_heads,
              cmha_q_proj = \<lparr>in_features = C, out_features = ?D * num_heads\<rparr>,
              cmha_kv_proj = \<lparr>in_features = C, out_features = ?D * num_heads * 2\<rparr>,
              cmha_head_proj = \<lparr>in_features = ?D * num_heads, out_features = C\<rparr>\<rparr>"
  let ?nB = "B * (H div wh) * (W div ww)"
  have D: "0 < ?D" using assms(2,9,10,11) by (rule head_dim_pos)
  have init: "CrossMHA_init True C num_heads qkv_dim = Inr ?mha"
    using assms(2,9,10) D by (intro CrossMHA_init_ok) simp_all
  have nB: "0 \<le> ?nB" using assms(1,3,4,5,6) by (rule windows_nonneg)
  have N: "0 \<le> wh * ww" using assms(5,6) by simp
  have fwd: "CrossMHA_forward ?mha [?nB, wh * ww, C] [?nB, wh * ww, C] attn_mask False
               = Inr [?nB, wh * ww, C]"
    using D assms(9) nB N assms(12)
    by (intro CrossMHA_forward_ok[where D = ?D and H = num_heads]) simp_all
  have "WindowCrossMHA2d_forward \<lparr>wc_window_size = (wh, ww), wc_num_heads = num_heads, wc_mha = ?mha\<rparr>
          [B, C, H, W] [B, C, H, W] attn_mask layer_norm1 layer_norm2 = Inr [B, C, H, W]"
    using assms(5-8)
    by (simp add: WindowCrossMHA2d_forward_def bchw_to_bnc_ok apply_norm_keeps[OF assms(13)]
        apply_norm_keeps[OF assms(14)] fwd bnc_to_bchw_ok)
  then show ?thesis
    by (simp add: WindowCrossMHA2d_init_def init window_pair_def)
qed


lemma broadcast_rev_same: "broadcast_rev xs xs = Inr xs"
  by (induction xs) simp_all

lemma tensor_add_same: "tensor_add s s = Inr s"
  by (simp add: tensor_add_def broadcast_rev_same)

lemma forward_mha_ok:
  assumes "ow_qkv_dim m = D" "ow_num_heads m = H" "0 < D" "0 < H" "0 \<le> B" "0 \<le> N"
    "mask_fits attn_mask [B, H, N, N]"
  shows "forward_mha m [B, N, D * H * 3] attn_mask = Inr [B, N, D * H]"
proof -
  have S: "0 < D * H" using assms(3,4) by simp
  have "sliced_sdp [B, N, D * H] [B, N, D * H] [B, N, D * H] H attn_mask False = Inr [B, N, D * H]"
    using assms by (intro sliced_sdp_ok) simp_all
  then show ?thesis
    using assms(1,2) by (simp add: forward_mha_def split3[OF S])
qed

lemma OverlapWindowMHA2d_init_ok:
  assumes "0 \<le> C" "0 \<le> head_dim C H qkv * H" "qkv = None \<longrightarrow> H \<noteq> 0 \<and> C mod H = 0"
  shows "OverlapWindowMHA2d_init C H (WPair wh ww) qkv =
           Inr \<lparr>ow_window_size = (wh, ww), ow_pad_h = wh div 2, ow_pad_w = ww div 2, ow_num_heads = H,
                ow_qkv_dim = head_dim C H qkv,
                ow_qkv_proj = \<lparr>conv_in_channels = C, conv_out_channels = head_dim C H qkv * H * 3\<rparr>,
                ow_head_proj = \<lparr>conv_in_channels = head_dim C H qkv * H, conv_out_channels = C\<rparr>\<rparr>"
  using assms
  by (auto simp: OverlapWindowMHA2d_init_def Conv2d_init_def head_dim_def window_pair_def Let_def
      split: option.splits)

lemma overlap_norm_ok:
  assumes "norm_keeps layer_norm [B, H, W, C]"
  shows "(case layer_norm of None \<Rightarrow> Inr [B, C, H, W]
          | Some f \<Rightarrow> ebind (bchw_to_bhwc [B, C, H, W]) (\<lambda>a. ebind (f a) (\<lambda>b. bhwc_to_bchw b)))
         = Inr [B, C, H, W]"
  using assms by (simp add: norm_keeps_def bchw_to_bhwc_def bhwc_to_bchw_def split: option.splits)

lemma OverlapWindowMHA2d_ok:
  fixes B C H W wh ww num_heads :: int
  assumes "0 < B" "0 < C" "0 < H" "0 < W" "0 < wh" "0 < ww" "H mod wh = 0" "W mod ww = 0"
    and "0 < num_heads" "qkv_dim = None \<longrightarrow> C mod num_heads = 0" "\<forall>d. qkv_dim = Some d \<longrightarrow> 0 < d"
    and "mask_fits attn_mask [B * (H div wh) * (W div ww), num_heads, wh * ww, wh * ww]"
    and "norm_keeps layer_norm [B, H, W, C]"
    and "(H + 2 * (wh div 2)) mod wh = 0" "(W + 2 * (ww div 2)) mod ww = 0"
    and "mask_fits attn_mask
           [B * ((H + 2 * (wh div 2)) div wh) * ((W + 2 * (ww div 2)) div ww), num_heads, wh * ww, wh * ww]"
  shows "\<exists>m. OverlapWindowMHA2d_init C num_heads (WPair wh ww) qkv_dim = Inr m \<and>
             OverlapWindowMHA2d_forward m [B, C, H, W] attn_mask layer_norm = Inr [B, C, H, W]"
proof -
  let ?D = "head_dim C num_heads qkv_dim"
  let ?S = "?D * num_heads"
  let ?m = "\<lparr>ow_window_size = (wh, ww), ow_pad_h = wh div 2, ow_pad_w = ww div 2,
              ow_num_heads = num_heads, ow_qkv_dim = ?D,
              ow_qkv_proj = \<lparr>conv_in_channels = C, conv_out_channels = ?S * 3\<rparr>,
              ow_head_proj = \<lparr>conv_in_channels = ?S, conv_out_channels = C\<rparr>\<rparr>"
  let ?H2 = "H + 2 * (wh div 2)" and ?W2 = "W + 2 * (ww div 2)"
  let ?n1 = "B * (H div wh) * (W div ww)" and ?n2 = "B * (?H2 div wh) * (?W2 div ww)"
  let ?N = "wh * ww"
  have D: "0 < ?D" using assms(2,9,10,11) by (rule head_dim_pos)
  have S: "0 < ?S" using D assms(9) by simp
  have init: "OverlapWindowMHA2d_init C num_heads (WPair wh ww) qkv_dim = Inr ?m"
    using assms(2,9,10) D by (intro OverlapWindowMHA2d_init_ok) simp_all
  have H2: "0 < ?H2" "0 < ?W2" using assms(3,4,5,6) by presburger+
  have n1: "0 \<le> ?n1" using assms(1,3,4,5,6) by (rule windows_nonneg)
  have n2: "0 \<le> ?n2" using assms(1) H2 assms(5,6) by (rule windows_nonneg)
  have N: "0 \<le> ?N" using assms(5,6) by simp
  have conv1: "Conv2d_forward (ow_qkv_proj ?m) [B, C, H, W] = Inr [B, ?S * 3, H, W]"
    using S assms(3,4) by (simp add: Conv2d_forward_def)
  have pad1: "pad2d [B, ?S * 3, H, W] (ow_pad_w ?m) (ow_pad_w ?m) (ow_pad_h ?m) (ow_pad_h ?m)
                = Inr [B, ?S * 3, ?H2, ?W2]"
    using H2 by (simp add: pad2d_def Let_def)
  have w1: "bchw_to_bnc [B, ?S * 3, H, W] (ow_window_size ?m) = Inr [?n1, ?N, ?S * 3]"
    using assms(5-8) by (simp add: bchw_to_bnc_ok)
  have w2: "bchw_to_bnc [B, ?S * 3, ?H2, ?W2] (ow_window_size ?m) = Inr [?n2, ?N, ?S * 3]"
    using assms(5,6,14,15) by (simp add: bchw_to_bnc_ok)
  have a1: "forward_mha ?m [?n1, ?N, ?S * 3] attn_mask = Inr [?n1, ?N, ?S]"
    using D assms(9) n1 N assms(12)
    by (intro forward_mha_ok) simp_all
  have a2: "forward_mha ?m [?n2, ?N, ?S * 3] attn_mask = Inr [?n2, ?N, ?S]"
    using D assms(9) n2 N assms(16)
    by (intro forward_mha_ok) simp_all
  have b1: "branch_out_shape [B, ?S * 3, H, W] [?n1, ?N, ?S] = Inr [B, ?S, H, W]"
    and b2: "branch_out_shape [B, ?S * 3, ?H2, ?W2] [?n2, ?N, ?S] = Inr [B, ?S, ?H2, ?W2]"
    by (simp_all add: branch_out_shape_def)
  have r1: "bnc_to_bchw [?n1, ?N, ?S] [B, ?S, H, W] (ow_window_size ?m) = Inr [B, ?S, H, W]"
    using assms(5-8) by (simp add: bnc_to_bchw_ok)
  have r2: "bnc_to_bchw [?n2, ?N, ?S] [B, ?S, ?H2, ?W2] (ow_window_size ?m) = Inr [B, ?S, ?H2, ?W2]"
    using assms(5,6,14,15) by (simp add: bnc_to_bchw_ok)
  have pad2: "pad2d [B, ?S, ?H2, ?W2] (- ow_pad_w ?m) (- ow_pad_w ?m) (- ow_pad_h ?m) (- ow_pad_h ?m)
                = Inr [B, ?S, H, W]"
    using assms(3,4) by (simp add: pad2d_def Let_def)
  have conv2: "Conv2d_forward (ow_head_proj ?m) [B, ?S, H, W] = Inr [B, C, H, W]"
    using assms(2,3,4) by (simp add: Conv2d_forward_def)
  have "OverlapWindowMHA2d_forward ?m [B, C, H, W] attn_mask layer_norm = Inr [B, C, H, W]"
    unfolding OverlapWindowMHA2d_forward_def
    by (simp only: overlap_norm_ok[OF assms(13)] ebind_Inr conv1 pad1 Let_def w1 w2 a1 a2 b1 b2 r1 r2
        pad2 tensor_add_same conv2)
  with init show ?thesis by blast
qed


lemma padded_divisible_iff:
  fixes H wh :: int
  assumes "0 < wh" "H mod wh = 0"
  shows "(H + 2 * (wh div 2)) mod wh = 0 \<longleftrightarrow> even wh \<or> wh = 1"
proof (cases "even wh")
  case True
  then have "2 * (wh div 2) = wh" by simp
  then show ?thesis using True assms(2) by simp
next
  case False
  then have e: "2 * (wh div 2) = wh - 1" by presburger
  from assms(2) have "wh dvd H" by (simp add: mod_eq_0_iff_dvd)
  then obtain k where k: "H = k * wh" by (auto simp: dvd_def mult.commute)
  have "H + 2 * (wh div 2) = (wh - 1) + k * wh" using e k by simp
  then have "(H + 2 * (wh div 2)) mod wh = ((wh - 1) + k * wh) mod wh" by (rule arg_cong)
  also have "\<dots> = (wh - 1) mod wh" by (simp only: mod_mult_self1)
  also have "\<dots> = wh - 1" using assms(1) by (intro mod_pos_pos_trivial) simp_all
  finally show ?thesis using False by auto
qed

text \<open>
  Claim C6 says that the three windowed forward passes return the shape of their
  input whenever height and width are multiples of the window extents.
  \<open>OverlapWindowMHA2d\<close> with the window \<open>(3, 3)\<close> on a \<open>3 x 3\<close> map pads it to
  \<open>5 x 5\<close>, which the partition into \<open>3 x 3\<close> windows refuses.
\<close>

theorem OverlapWindowMHA2d_odd_window_fails:
  "(3::int) mod 3 = 0 \<and>
   OverlapWindowMHA2d_init 4 2 (WPair 3 3) None =
     Inr \<lparr>ow_window_size = (3, 3), ow_pad_h = 1, ow_pad_w = 1, ow_num_heads = 2, ow_qkv_dim = 2,
          ow_qkv_proj = \<lparr>conv_in_channels = 4, conv_out_channels = 12\<rparr>,
          ow_head_proj = \<lparr>conv_in_channels = 4, conv_out_channels = 4\<rparr>\<rparr> \<and>
   OverlapWindowMHA2d_forward
     \<lparr>ow_window_size = (3, 3), ow_pad_h = 1, ow_pad_w = 1, ow_num_heads = 2, ow_qkv_dim = 2,
      ow_qkv_proj = \<lparr>conv_in_channels = 4, conv_out_channels = 12\<rparr>,
      ow_head_proj = \<lparr>conv_in_channels = 4, conv_out_channels = 4\<rparr>\<rparr>
     [1, 4, 3, 3] None None = Inl AssertionError"
  by (simp add: OverlapWindowMHA2d_init_def OverlapWindowMHA2d_forward_def window_pair_def
      Conv2d_init_def Conv2d_forward_def pad2d_def bchw_to_bnc_def)

text \<open>
  A mask of one dimension is refused while the fused kernels are enabled: the call of
  \<open>WindowMHA2d\<close> on a \<open>(2, 32, 8, 12)\<close> map with windows of \<open>4 x 4\<close> and a mask of
  shape \<open>(16)\<close> raises, although that mask broadcasts to the scores.
\<close>

lemma WindowMHA2d_rank1_mask_raises:
  "WindowMHA2d_forward
     \<lparr>wm_window_size = (4, 4), wm_num_heads = 4,
      wm_mha = \<lparr>mha_qkv_dim = 8, mha_num_heads = 4,
                mha_qkv_proj = \<lparr>in_features = 32, out_features = 96\<rparr>,
                mha_head_proj = \<lparr>in_features = 32, out_features = 32\<rparr>\<rparr>\<rparr>
     [2, 32, 8, 12] (Some [16]) None = Inl IndexError"
  by (simp add: WindowMHA2d_forward_def bchw_to_bnc_def apply_norm_def MHA_forward_def
      Linear_forward_def split3[of 32 12 16, simplified] sliced_sdp_def reshape_def numel_def
      permute_0213 scaled_dot_product_attention_def)

text \<open>
  Claim C6, amended. Take a non-empty feature map \<open>(B, C, H, W)\<close>, positive window
  extents \<open>(wh, ww)\<close> that divide \<open>H\<close> and \<open>W\<close>, a module for \<open>C\<close> channels built
  with a positive \<open>num_heads\<close> and either no \<open>qkv_dim\<close> and \<open>C\<close> a multiple of
  \<open>num_heads\<close> or an explicit positive \<open>qkv_dim\<close> (in a torch that has
  \<open>F.scaled_dot_product_attention\<close>, which the constructors of the first two
  wrappers assert), a mask that is absent or has at least two dimensions and
  broadcasts to the scores \<open>(B * windows, num_heads, wh * ww, wh * ww)\<close>, and
  normalizations that are absent or return a tensor of the shape they are given. Then
  \<open>WindowMHA2d\<close>, and \<open>WindowCrossMHA2d\<close> on two maps of that shape, return the shape
  of their input. \<open>OverlapWindowMHA2d\<close> does so when moreover each window extent is
  even or 1, which is when the map padded by half a window on each side is again a
  multiple of the window, and the mask broadcasts to the scores of the padded map's
  windows as well.
\<close>

theorem window_forward_preserves_shape:
  fixes B C H W wh ww num_heads :: int
  assumes "0 < B" "0 < C" "0 < H" "0 < W" "0 < wh" "0 < ww" "H mod wh = 0" "W mod ww = 0"
    and "0 < num_heads" "qkv_dim = None \<longrightarrow> C mod num_heads = 0" "\<forall>d. qkv_dim = Some d \<longrightarrow> 0 < d"
    and "mask_fits attn_mask [B * (H div wh) * (W div ww), num_heads, wh * ww, wh * ww]"
    and "norm_keeps layer_norm [B * (H div wh) * (W div ww), wh * ww, C]"
    and "norm_keeps layer_norm1 [B * (H div wh) * (W div ww), wh * ww, C]"
    and "norm_keeps layer_norm2 [B * (H div wh) * (W div ww), wh * ww, C]"
    and "norm_keeps layer_norm' [B, H, W, C]"
  shows "(\<exists>m. WindowMHA2d_init True C num_heads (WPair wh ww) qkv_dim = Inr m \<and>
              WindowMHA2d_forward m [B, C, H, W] attn_mask layer_norm = Inr [B, C, H, W]) \<and>
         (\<exists>m. WindowCrossMHA2d_init True C num_heads (WPair wh ww) qkv_dim = Inr m \<and>
              WindowCrossMHA2d_forward m [B, C, H, W] [B, C, H, W] attn_mask layer_norm1 layer_norm2
                = Inr [B, C, H, W]) \<and>
         ((even wh \<or> wh = 1) \<and> (even ww \<or> ww = 1) \<and>
          mask_fits attn_mask
            [B * ((H + 2 * (wh div 2)) div wh) * ((W + 2 * (ww div 2)) div ww), num_heads,
             wh * ww, wh * ww] \<longrightarrow>
          (\<exists>m. OverlapWindowMHA2d_init C num_heads (WPair wh ww) qkv_dim = Inr m \<and>
               OverlapWindowMHA2d_forward m [B, C, H, W] attn_mask layer_norm' = Inr [B, C, H, W]))"
proof (intro conjI impI)
  show "\<exists>m. WindowMHA2d_init True C num_heads (WPair wh ww) qkv_dim = Inr m \<and>
              WindowMHA2d_forward m [B, C, H, W] attn_mask layer_norm = Inr [B, C, H, W]"
    using assms(1-13) by (rule WindowMHA2d_ok)
  show "\<exists>m. WindowCrossMHA2d_init True C num_heads (WPair wh ww) qkv_dim = Inr m \<and>
              WindowCrossMHA2d_forward m [B, C, H, W] [B, C, H, W] attn_mask layer_norm1 layer_norm2
                = Inr [B, C, H, W]"
    using assms(1-12,14,15) by (rule WindowCrossMHA2d_ok)
  assume ev: "(even wh \<or> wh = 1) \<and> (even ww \<or> ww = 1) \<and>
          mask_fits attn_mask
            [B * ((H + 2 * (wh div 2)) div wh) * ((W + 2 * (ww div 2)) div ww), num_heads,
             wh * ww, wh * ww]"
  then have pd: "(H + 2 * (wh div 2)) mod wh = 0" "(W + 2 * (ww div 2)) mod ww = 0"
    using padded_divisible_iff[OF assms(5,7)] padded_divisible_iff[OF assms(6,8)] by simp_all
  from ev have mk: "mask_fits attn_mask
            [B * ((H + 2 * (wh div 2)) div wh) * ((W + 2 * (ww div 2)) div ww), num_heads,
             wh * ww, wh * ww]" by simp
  from assms(1-12,16) pd mk
  show "\<exists>m. OverlapWindowMHA2d_init C num_heads (WPair wh ww) qkv_dim = Inr m \<and>
               OverlapWindowMHA2d_forward m [B, C, H, W] attn_mask layer_norm' = Inr [B, C, H, W]"
    by (rule OverlapWindowMHA2d_ok)
qed

theorem window_forward_preserves_shape_witness:
  "(8::int) mod 4 = 0 \<and> (12::int) mod 4 = 0 \<and> (32::int) mod 4 = 0 \<and> even (4::int) \<and>
   mask_fits (Some [4, 16, 16]) [2 * (8 div 4) * (12 div 4), 4, 4 * 4, 4 * 4] \<and>
   mask_fits (Some [4, 16, 16])
     [2 * ((8 + 2 * (4 div 2)) div 4) * ((12 + 2 * (4 div 2)) div 4), 4, 4 * 4, 4 * 4] \<and>
   norm_keeps (Some Inr) [2 * (8 div 4) * (12 div 4), 4 * 4, 32] \<and>
   norm_keeps (Some Inr) [2, 8, 12, 32] \<and>
   (\<exists>m. WindowMHA2d_init True 32 4 (WPair 4 4) None = Inr m \<and>
        WindowMHA2d_forward m [2, 32, 8, 12] (Some [4, 16, 16]) (Some Inr) = Inr [2, 32, 8, 12]) \<and>
   (\<exists>m. WindowCrossMHA2d_init True 32 4 (WPair 4 4) None = Inr m \<and>
        WindowCrossMHA2d_forward m [2, 32, 8, 12] [2, 32, 8, 12] (Some [4, 16, 16]) None (Some Inr)
          = Inr [2, 32, 8, 12]) \<and>
   (\<exists>m. OverlapWindowMHA2d_init 32 4 (WPair 4 4) None = Inr m \<and>
        OverlapWindowMHA2d_forward m [2, 32, 8, 12] (Some [4, 16, 16]) (Some Inr) = Inr [2, 32, 8, 12])"
  using window_forward_preserves_shape [of 2 32 8 12 4 4 4 None "Some [4, 16, 16]" "Some Inr" None "Some Inr" "Some Inr"]
  by (simp add: mask_fits_def norm_keeps_def broadcastable_to_def)

section \<open>The window of a single position\<close>

lemma window_index_mod:
  fixes b H y W c :: nat
  assumes "c < W"
  shows "((b * H + y) * W + c) mod W = c" "((b * H + y) * W + c) div W = b * H + y"
  using assms by simp_all

lemma window_index_row:
  fixes b H y :: nat
  assumes "y < H"
  shows "(b * H + y) mod H = y" "(b * H + y) div H = b"
  using assms by simp_all

lemma window_index_batch:
  fixes b H y W c :: nat
  assumes "y < H" "c < W"
  shows "((b * H + y) * W + c) div (H * W) = b"
proof -
  have "((b * H + y) * W + c) div (H * W) = ((b * H + y) * W + c) div W div H"
    by (simp only: mult.commute[of H W] div_mult2_eq)
  also have "\<dots> = (b * H + y) div H" using assms(2) by simp
  also have "\<dots> = b" using assms(1) by simp
  finally show ?thesis .
qed

lemma OverlapWindowMHA2d_init_1x1:
  assumes "OverlapWindowMHA2d_init in_channels num_heads window_size qkv_dim = Inr m"
    and "window_pair window_size = (1, 1)"
  shows "ow_window_size m = (1, 1) \<and> ow_pad_h m = 0 \<and> ow_pad_w m = 0"
  using assms
  by (auto simp: OverlapWindowMHA2d_init_def Let_def ebind_def split: sum.splits)

lemma forward_values_1x1:
  assumes "ow_window_size m = (1, 1)" "ow_pad_h m = 0" "ow_pad_w m = 0"
  shows "\<exists>out. OverlapWindowMHA2d_forward_values K m x None = Inr out \<and>
           t_B out = t_B x \<and> t_H out = t_H x \<and> t_W out = t_W x \<and>
           (\<forall>b y c. y < t_H x \<longrightarrow> c < t_W x \<longrightarrow>
              t_at out b y c =
                k_head_proj K
                  (k_add K
                    (k_attention K ((b * t_H x + y) * t_W x + c) [k_qkv_proj K (t_at x b y c)] 0)
                    (k_attention K ((b * t_H x + y) * t_W x + c) [k_qkv_proj K (t_at x b y c)] 0)))"
  using assms
  by (simp add: OverlapWindowMHA2d_forward_values_def pointwise_def pad_values_def
      bchw_to_bnc_values_def bnc_to_bchw_values_def forward_mha_values_def add_values_def Let_def
      window_index_mod window_index_row window_index_batch)


lemma forward_values_norm:
  "OverlapWindowMHA2d_forward_values K m x (Some f) =
     ebind (f x) (\<lambda>x'. OverlapWindowMHA2d_forward_values K m x' None)"
  by (simp add: OverlapWindowMHA2d_forward_values_def)

lemma forward_values_1x1_norm:
  assumes "ow_window_size m = (1, 1)" "ow_pad_h m = 0" "ow_pad_w m = 0"
    and "per_position layer_norm"
  shows "\<exists>g. \<forall>x. \<exists>out. OverlapWindowMHA2d_forward_values K m x layer_norm = Inr out \<and>
           t_B out = t_B x \<and> t_H out = t_H x \<and> t_W out = t_W x \<and>
           (\<forall>b y c. y < t_H x \<longrightarrow> c < t_W x \<longrightarrow>
              t_at out b y c = g ((b * t_H x + y) * t_W x + c) (t_at x b y c))"
proof (cases layer_norm)
  case None
  let ?g = "\<lambda>k v. k_head_proj K
              (k_add K (k_attention K k [k_qkv_proj K v] 0) (k_attention K k [k_qkv_proj K v] 0))"
  have H: "\<exists>out. OverlapWindowMHA2d_forward_values K m x layer_norm = Inr out \<and>
           t_B out = t_B x \<and> t_H out = t_H x \<and> t_W out = t_W x \<and>
           (\<forall>b y c. y < t_H x \<longrightarrow> c < t_W x \<longrightarrow>
              t_at out b y c = ?g ((b * t_H x + y) * t_W x + c) (t_at x b y c))" for x
    using forward_values_1x1[OF assms(1-3), of K x] None by simp
  show ?thesis
    apply (rule exI[of _ ?g])
    apply (rule allI)
    apply (rule H)
    done
next
  case (Some f)
  with assms(4) obtain n where n: "\<And>x. f x = Inr (pointwise n x)"
    by (auto simp: per_position_def)
  let ?g = "\<lambda>k v. k_head_proj K
              (k_add K (k_attention K k [k_qkv_proj K (n v)] 0) (k_attention K k [k_qkv_proj K (n v)] 0))"
  have H: "\<exists>out. OverlapWindowMHA2d_forward_values K m x layer_norm = Inr out \<and>
           t_B out = t_B x \<and> t_H out = t_H x \<and> t_W out = t_W x \<and>
           (\<forall>b y c. y < t_H x \<longrightarrow> c < t_W x \<longrightarrow>
              t_at out b y c = ?g ((b * t_H x + y) * t_W x + c) (t_at x b y c))" for x
    using forward_values_1x1[OF assms(1-3), of K "pointwise n x"] Some
    by (simp add: forward_values_norm n pointwise_def)
  show ?thesis
    apply (rule exI[of _ ?g])
    apply (rule allI)
    apply (rule H)
    done
qed

text \<open>
  Claim C8. \<open>OverlapWindowMHA2d\<close> built with the window \<open>(1, 1)\<close> pads by nothing
  and attends within windows of one token, so that, with no normalization or one that
  acts on each position separately, the output at a position is a function of the
  input at that position: two inputs of one shape that agree at a position give
  outputs that agree there, whatever the kernels are. The forward pass returns an
  output of the input's extent.
\<close>

theorem OverlapWindowMHA2d_1x1_pointwise:
  assumes "OverlapWindowMHA2d_init in_channels num_heads window_size qkv_dim = Inr m"
    and "window_pair window_size = (1, 1)"
    and "per_position layer_norm"
    and "t_B x = t_B x'" "t_H x = t_H x'" "t_W x = t_W x'"
    and "y < t_H x" "c < t_W x"
    and "t_at x b y c = t_at x' b y c"
  shows "\<exists>out out'.
           OverlapWindowMHA2d_forward_values K m x layer_norm = Inr out \<and>
           OverlapWindowMHA2d_forward_values K m x' layer_norm = Inr out' \<and>
           t_B out = t_B x \<and> t_H out = t_H x \<and> t_W out = t_W x \<and>
           t_at out b y c = t_at out' b y c"
proof -
  from OverlapWindowMHA2d_init_1x1[OF assms(1,2)]
  have m: "ow_window_size m = (1, 1)" "ow_pad_h m = 0" "ow_pad_w m = 0" by simp_all
  from forward_values_1x1_norm[OF m assms(3), of K] obtain g where
    g: "\<And>x. \<exists>out. OverlapWindowMHA2d_forward_values K m x layer_norm = Inr out \<and>
           t_B out = t_B x \<and> t_H out = t_H x \<and> t_W out = t_W x \<and>
           (\<forall>b y c. y < t_H x \<longrightarrow> c < t_W x \<longrightarrow>
              t_at out b y c = g ((b * t_H x + y) * t_W x + c) (t_at x b y c))"
    by blast
  from g[of x] assms(7,8) obtain out where
    o: "OverlapWindowMHA2d_forward_values K m x layer_norm = Inr out"
       "t_B out = t_B x" "t_H out = t_H x" "t_W out = t_W x"
       "t_at out b y c = g ((b * t_H x + y) * t_W x + c) (t_at x b y c)"
    by blast
  from g[of x'] assms(5-8) obtain out' where
    o': "OverlapWindowMHA2d_forward_values K m x' layer_norm = Inr out'"
       "t_at out' b y c = g ((b * t_H x' + y) * t_W x' + c) (t_at x' b y c)"
    by auto
  from o o' assms(5,6,9) show ?thesis by simp
qed


lemma OverlapWindowMHA2d_init_4_2_1:
  "OverlapWindowMHA2d_init 4 2 (WInt 1) None =
     Inr \<lparr>ow_window_size = (1, 1), ow_pad_h = 0, ow_pad_w = 0, ow_num_heads = 2, ow_qkv_dim = 2,
          ow_qkv_proj = \<lparr>conv_in_channels = 4, conv_out_channels = 12\<rparr>,
          ow_head_proj = \<lparr>conv_in_channels = 4, conv_out_channels = 4\<rparr>\<rparr>"
  by (simp add: OverlapWindowMHA2d_init_def window_pair_def Conv2d_init_def)

theorem OverlapWindowMHA2d_1x1_pointwise_witness:
  "OverlapWindowMHA2d_init 4 2 (WInt 1) None =
     Inr \<lparr>ow_window_size = (1, 1), ow_pad_h = 0, ow_pad_w = 0, ow_num_heads = 2, ow_qkv_dim = 2,
          ow_qkv_proj = \<lparr>conv_in_channels = 4, conv_out_channels = 12\<rparr>,
          ow_head_proj = \<lparr>conv_in_channels = 4, conv_out_channels = 4\<rparr>\<rparr> \<and>
   window_pair (WInt 1) = (1, 1) \<and> per_position (None :: (int tensor4 \<Rightarrow> error + int tensor4) option) \<and>
   (\<exists>out out'.
      OverlapWindowMHA2d_forward_values
        \<lparr>k_qkv_proj = (\<lambda>v. v + 1), k_zero = 0, k_attention = (\<lambda>k ts t. sum_list ts + int k),
         k_zero_out = 0, k_add = (+), k_head_proj = (\<lambda>v. 2 * v)\<rparr>
        \<lparr>ow_window_size = (1, 1), ow_pad_h = 0, ow_pad_w = 0, ow_num_heads = 2, ow_qkv_dim = 2,
          ow_qkv_proj = \<lparr>conv_in_channels = 4, conv_out_channels = 12\<rparr>,
          ow_head_proj = \<lparr>conv_in_channels = 4, conv_out_channels = 4\<rparr>\<rparr>
        \<lparr>t_B = 1, t_H = 2, t_W = 2, t_at = (\<lambda>b y c. int (10 * y + c))\<rparr> None = Inr out \<and>
      OverlapWindowMHA2d_forward_values
        \<lparr>k_qkv_proj = (\<lambda>v. v + 1), k_zero = 0, k_attention = (\<lambda>k ts t. sum_list ts + int k),
         k_zero_out = 0, k_add = (+), k_head_proj = (\<lambda>v. 2 * v)\<rparr>
        \<lparr>ow_window_size = (1, 1), ow_pad_h = 0, ow_pad_w = 0, ow_num_heads = 2, ow_qkv_dim = 2,
          ow_qkv_proj = \<lparr>conv_in_channels = 4, conv_out_channels = 12\<rparr>,
          ow_head_proj = \<lparr>conv_in_channels = 4, conv_out_channels = 4\<rparr>\<rparr>
        \<lparr>t_B = 1, t_H = 2, t_W = 2, t_at = (\<lambda>b y c. if y = 0 \<and> c = 1 then 1 else 7)\<rparr> None = Inr out' \<and>
      t_at out 0 0 1 = t_at out' 0 0 1)"
  using OverlapWindowMHA2d_1x1_pointwise [OF OverlapWindowMHA2d_init_4_2_1, of None
      "\<lparr>t_B = 1, t_H = 2, t_W = 2, t_at = (\<lambda>b y c. int (10 * y + c))\<rparr>"
      "\<lparr>t_B = 1, t_H = 2, t_W = 2, t_at = (\<lambda>b y c. if y = 0 \<and> c = 1 then 1 else 7)\<rparr>"
      0 1 0
      "\<lparr>k_qkv_proj = (\<lambda>v. v + 1), k_zero = 0, k_attention = (\<lambda>k ts t. sum_list ts + int k),
         k_zero_out = 0, k_add = (+), k_head_proj = (\<lambda>v. 2 * v)\<rparr>"]
    OverlapWindowMHA2d_init_4_2_1
  by (simp add: window_pair_def per_position_def) blast

end
